theory Spec2Isabelle
  imports Complex_Main "HOL-Library.Log_Nat" "HOL-Library.Signed_Division"
begin

section \<open>JavaScript values used by the decoder\<close>

text \<open>
  The decoder is TypeScript. Three kinds of JavaScript value carry its arithmetic:
  \<^item> \<open>number\<close>: an IEEE-754 binary64 value. A finite one is a rational number and is
    modelled as the \<^typ>\<open>rat\<close> (or, for lamport balances, the \<^typ>\<open>int\<close>) it denotes; the two
    zeros are one value. Every arithmetic operation rounds its exact result to the nearest
    binary64 value, ties to the even significand, with the fixed spacing \<open>2^-1074\<close> of the
    subnormal range (\<open>round_double\<close>). A number computed from the input can leave the
    finite range: \<open>js_number\<close> adds the two infinities and NaN, and \<open>to_number\<close> is the
    rounding that overflows. The confidence scores are sums of literals of the source,
    all below 2, and stay rationals.
  \<^item> \<open>bigint\<close>: an unbounded integer, \<^typ>\<open>int\<close>; its division truncates towards zero.
  \<^item> \<open>string\<close>: amounts travel as decimal strings. \<open>BigInt(s)\<close> parses one and throws a
    SyntaxError on a malformed one; \<open>toString\<close> prints one.
\<close>

datatype js_error =
    SyntaxError     \<comment> \<open>\<open>BigInt(s)\<close> on a string that is no integer literal\<close>
  | RangeError      \<comment> \<open>\<open>BigInt(x)\<close> on a number that is no integer\<close>
  | Rejected string \<comment> \<open>an exception or rejected promise of an enricher plugin\<close>

subsection \<open>binary64 rounding\<close>

definition pow2 :: "int \<Rightarrow> rat" where
  "pow2 e = (if 0 \<le> e then 2 ^ nat e else 1 / 2 ^ nat (- e))"

definition floor_log2 :: "rat \<Rightarrow> int" where
  \<comment> \<open>for \<open>0 < a\<close>: the \<open>e\<close> with \<open>2^e \<le> a < 2^(e+1)\<close>\<close>
  "floor_log2 a =
     (let (p, q) = quotient_of a;
          e0 = bitlen p - bitlen q
      in if pow2 e0 \<le> a then e0 else e0 - 1)"

definition round_half_even :: "rat \<Rightarrow> int" where
  "round_half_even m =
     (let f = \<lfloor>m\<rfloor>; r = m - of_int f
      in if r < 1 / 2 then f
         else if 1 / 2 < r then f + 1
         else if even f then f else f + 1)"

definition round_double :: "rat \<Rightarrow> rat" where
  \<comment> \<open>nearest binary64 value with an unbounded exponent above: a 53-bit significand, or a
      multiple of \<open>2^-1074\<close> in the subnormal range; ties to even\<close>
  "round_double x =
     (if x = 0 then 0
      else let a = \<bar>x\<bar>;
               u = pow2 (max (floor_log2 a - 52) (- 1074))
           in sgn x * of_int (round_half_even (a / u)) * u)"

datatype js_number = Finite rat | PosInfinity | NegInfinity | NaN

definition to_number :: "rat \<Rightarrow> js_number" where
  \<comment> \<open>the number an exact result rounds to: an infinity from \<open>2^1024\<close> on, that is, when
      the rounded value has the exponent 1024 or more\<close>
  "to_number x =
     (let r = round_double x
      in if r \<noteq> 0 \<and> 1024 \<le> floor_log2 \<bar>r\<bar>
         then (if 0 < r then PosInfinity else NegInfinity)
         else Finite r)"

definition js_lit :: "rat \<Rightarrow> rat" where
  \<comment> \<open>a decimal literal of the source, such as \<open>0.7\<close>\<close>
  "js_lit q = round_double q"

definition js_add :: "rat \<Rightarrow> rat \<Rightarrow> rat" where
  \<comment> \<open>\<open>a + b\<close> on two confidence scores\<close>
  "js_add a b = round_double (a + b)"

fun number_sign :: "js_number \<Rightarrow> int" where
  "number_sign (Finite x) = (if x = 0 then 0 else if 0 < x then 1 else - 1)"
| "number_sign PosInfinity = 1"
| "number_sign NegInfinity = - 1"
| "number_sign NaN = 0"

fun js_mul :: "js_number \<Rightarrow> js_number \<Rightarrow> js_number" where
  \<comment> \<open>\<open>a * b\<close>: NaN with a NaN and for zero times infinity\<close>
  "js_mul (Finite x) (Finite y) = to_number (x * y)"
| "js_mul NaN b = NaN"
| "js_mul a NaN = NaN"
| "js_mul a b =
     (let s = number_sign a * number_sign b
      in if s = 0 then NaN else if 0 < s then PosInfinity else NegInfinity)"


definition Math_min :: "rat \<Rightarrow> rat \<Rightarrow> rat" where
  \<comment> \<open>\<open>Math.min(a, b)\<close> on two confidence scores\<close>
  "Math_min a b = (if a \<le> b then a else b)"

fun Math_floor :: "js_number \<Rightarrow> js_number" where
  "Math_floor (Finite x) = Finite (of_int \<lfloor>x\<rfloor>)"
| "Math_floor a = a"

fun BigInt_number :: "js_number \<Rightarrow> js_error + int" where
  \<comment> \<open>\<open>BigInt(x)\<close> for a number \<open>x\<close>: a RangeError unless \<open>x\<close> is an integer\<close>
  "BigInt_number (Finite x) = (if x = of_int \<lfloor>x\<rfloor> then Inr \<lfloor>x\<rfloor> else Inl RangeError)"
| "BigInt_number a = Inl RangeError"


subsection \<open>Decimal strings\<close>

definition digit_char :: "int \<Rightarrow> char" where
  "digit_char d = char_of (48 + d)"

definition digit_val :: "char \<Rightarrow> int option" where
  \<comment> \<open>value of a digit in a base up to 16\<close>
  "digit_val c =
     (let n = (of_char c :: int)
      in if 48 \<le> n \<and> n \<le> 57 then Some (n - 48)
         else if 97 \<le> n \<and> n \<le> 102 then Some (n - 87)
         else if 65 \<le> n \<and> n \<le> 70 then Some (n - 55)
         else None)"

function dec :: "int \<Rightarrow> string" where
  \<comment> \<open>the decimal digits of a non-negative integer, without leading zeros\<close>
  "dec n = (if n < 10 then [digit_char n] else dec (n div 10) @ [digit_char (n mod 10)])"
  by pat_completeness auto
termination
  by (relation "measure nat") auto

declare dec.simps [simp del]

fun parse_digits :: "int \<Rightarrow> int \<Rightarrow> string \<Rightarrow> int option" where
  "parse_digits b acc [] = Some acc"
| "parse_digits b acc (c # cs) =
     (case digit_val c of
        None \<Rightarrow> None
      | Some d \<Rightarrow> if d < b then parse_digits b (acc * b + d) cs else None)"

definition parse_nat :: "int \<Rightarrow> string \<Rightarrow> int option" where
  \<comment> \<open>one or more digits of base \<open>b\<close>\<close>
  "parse_nat b cs = (if cs = [] then None else parse_digits b 0 cs)"

definition is_whitespace :: "char \<Rightarrow> bool" where
  \<comment> \<open>TAB, LF, VT, FF, CR and SPACE; the non-ASCII white space of ECMAScript does not
      occur in the 8-bit strings of the model\<close>
  "is_whitespace c = ((of_char c :: int) \<in> {9, 10, 11, 12, 13, 32})"

definition trim :: "string \<Rightarrow> string" where
  "trim s = rev (dropWhile is_whitespace (rev (dropWhile is_whitespace s)))"

definition signed_decimal :: "string \<Rightarrow> int option" where
  "signed_decimal t =
     (case t of
        c # ds \<Rightarrow>
          if c = CHR ''+'' then parse_nat 10 ds
          else if c = CHR ''-'' then map_option uminus (parse_nat 10 ds)
          else parse_nat 10 t
      | [] \<Rightarrow> None)"

definition StringToBigInt :: "string \<Rightarrow> int option" where
  \<comment> \<open>ECMAScript's StringToBigInt: surrounding white space is ignored, the empty string
      is 0, a decimal literal may carry a sign, a literal with the prefix 0x, 0o or 0b
      may not\<close>
  "StringToBigInt str =
     (let t = trim str
      in case t of
           [] \<Rightarrow> Some 0
         | [c] \<Rightarrow> signed_decimal t
         | c0 # c1 # ds \<Rightarrow>
             if c0 = CHR ''0'' \<and> (c1 = CHR ''x'' \<or> c1 = CHR ''X'')
               then parse_nat 16 ds
             else if c0 = CHR ''0'' \<and> (c1 = CHR ''o'' \<or> c1 = CHR ''O'')
               then parse_nat 8 ds
             else if c0 = CHR ''0'' \<and> (c1 = CHR ''b'' \<or> c1 = CHR ''B'')
               then parse_nat 2 ds
             else signed_decimal t)"

definition BigInt :: "string \<Rightarrow> js_error + int" where
  \<comment> \<open>\<open>BigInt(s)\<close> for a string \<open>s\<close>\<close>
  "BigInt s = (case StringToBigInt s of None \<Rightarrow> Inl SyntaxError | Some n \<Rightarrow> Inr n)"

definition bigint_toString :: "int \<Rightarrow> string" where
  "bigint_toString n = (if n < 0 then CHR ''-'' # dec (- n) else dec n)"

definition bigint_div :: "int \<Rightarrow> int \<Rightarrow> int" where
  \<comment> \<open>\<open>a / b\<close> on bigints truncates towards zero\<close>
  "bigint_div a b = a sdiv b"

subsection \<open>Printing a number\<close>

text \<open>
  \<open>Number.prototype.toString\<close> prints a positive number \<open>x\<close> from the integers \<open>n\<close>, \<open>k\<close>
  and \<open>s\<close> with \<open>10^(k-1) \<le> s < 10^k\<close> such that \<open>s \<times> 10^(n-k)\<close> rounds to \<open>x\<close> and \<open>k\<close> is as
  small as possible; among several \<open>s\<close> the one closest to \<open>x\<close>, then the even one.
  Seventeen digits always suffice. Where the candidate above \<open>x\<close> is \<open>10^k\<close> itself, it
  is the digit 1 with the next exponent. Up to \<open>2^53\<close> every integer is a binary64 value of its
  own, so an integer in that range is printed with its own digits.
\<close>

fun decimal_exponent_small :: "nat \<Rightarrow> rat \<Rightarrow> int" where
  \<comment> \<open>for \<open>0 < x < 1\<close>: the \<open>n \<le> 0\<close> with \<open>10^(n-1) \<le> x < 10^n\<close>, searched down to \<open>- fuel\<close>\<close>
  "decimal_exponent_small 0 x = 0"
| "decimal_exponent_small (Suc fuel) x =
     (if 1 \<le> x * 10 then 0 else decimal_exponent_small fuel (x * 10) - 1)"

definition decimal_exponent :: "rat \<Rightarrow> int" where
  \<comment> \<open>for \<open>0 < x\<close>: the \<open>n\<close> with \<open>10^(n-1) \<le> x < 10^n\<close>\<close>
  "decimal_exponent x =
     (if 1 \<le> x then int (length (dec \<lfloor>x\<rfloor>)) else decimal_exponent_small 400 x)"

definition pow10 :: "int \<Rightarrow> rat" where
  "pow10 e = (if 0 \<le> e then 10 ^ nat e else 1 / 10 ^ nat (- e))"

fun shortest_digits :: "nat \<Rightarrow> int \<Rightarrow> int \<Rightarrow> rat \<Rightarrow> int \<times> int" where
  \<comment> \<open>\<open>shortest_digits fuel k n x\<close>: the digits \<open>s\<close> and their number, trying \<open>k\<close>, \<open>k + 1\<close>, ...\<close>
  "shortest_digits 0 k n x = (\<lfloor>x / pow10 (n - k)\<rfloor>, k)"
| "shortest_digits (Suc fuel) k n x =
     (let p = pow10 (n - k);
          lo = \<lfloor>x / p\<rfloor>;
          hi = lo + 1;
          okl = (round_double (of_int lo * p) = x);
          okh = (round_double (of_int hi * p) = x)
      in if okl \<and> okh then
           (if x - of_int lo * p < of_int hi * p - x then (lo, k)
            else if of_int hi * p - x < x - of_int lo * p then (hi, k)
            else if even lo then (lo, k) else (hi, k))
         else if okl then (lo, k)
         else if okh then (hi, k)
         else shortest_digits fuel (k + 1) n x)"

definition format_digits :: "string \<Rightarrow> int \<Rightarrow> string" where
  \<comment> \<open>the digits \<open>ds\<close> of \<open>s\<close> and the exponent \<open>n\<close>, laid out as ECMAScript does\<close>
  "format_digits ds n =
     (let k = int (length ds)
      in if k \<le> n \<and> n \<le> 21 then ds @ replicate (nat (n - k)) CHR ''0''
         else if 0 < n \<and> n \<le> 21 then take (nat n) ds @ CHR ''.'' # drop (nat n) ds
         else if - 6 < n \<and> n \<le> 0 then ''0.'' @ replicate (nat (- n)) CHR ''0'' @ ds
         else (if k = 1 then ds else hd ds # CHR ''.'' # tl ds)
              @ CHR ''e'' # (if 0 \<le> n - 1 then CHR ''+'' else CHR ''-'') # dec \<bar>n - 1\<bar>)"

definition positive_toString :: "rat \<Rightarrow> string" where
  "positive_toString x =
     (if x = of_int \<lfloor>x\<rfloor> \<and> x \<le> 2 ^ 53 then dec \<lfloor>x\<rfloor>
      else let n = decimal_exponent x;
               (s, k) = shortest_digits 17 1 n x
           in if s = 10 ^ nat k then format_digits (dec (s div 10)) (n + 1)
              else format_digits (dec s) n)"

definition finite_toString :: "rat \<Rightarrow> string" where
  \<comment> \<open>\<open>x.toString()\<close> for a finite number \<open>x\<close>\<close>
  "finite_toString x =
     (if x = 0 then ''0''
      else if x < 0 then CHR ''-'' # positive_toString (- x)
      else positive_toString x)"

fun Number_toString :: "js_number \<Rightarrow> string" where
  \<comment> \<open>\<open>x.toString()\<close> for a number \<open>x\<close>\<close>
  "Number_toString (Finite x) = finite_toString x"
| "Number_toString PosInfinity = ''Infinity''"
| "Number_toString NegInfinity = ''-Infinity''"
| "Number_toString NaN = ''NaN''"

definition number_toString :: "int \<Rightarrow> string" where
  \<comment> \<open>\<open>x.toString()\<close> for an integer-valued number \<open>x\<close>\<close>
  "number_toString x = finite_toString (of_int x)"

definition Number_of_bigint :: "int \<Rightarrow> js_number" where
  \<comment> \<open>\<open>Number(b)\<close> for a bigint \<open>b\<close>: the nearest binary64 value, an infinity for a
      \<open>b\<close> beyond the finite range\<close>
  "Number_of_bigint b = to_number (of_int b)"

fun js_div :: "js_number \<Rightarrow> js_number \<Rightarrow> js_number" where
  \<comment> \<open>\<open>a / b\<close>. A zero divisor counts as \<open>+0\<close>: the decoder divides by \<open>Number(b)\<close> of a
      bigint only, which is never \<open>-0\<close>\<close>
  "js_div (Finite x) (Finite y) =
     (if y = 0 then (if x = 0 then NaN else if 0 < x then PosInfinity else NegInfinity)
      else to_number (x / y))"
| "js_div NaN b = NaN"
| "js_div a NaN = NaN"
| "js_div (Finite x) b = Finite 0"
| "js_div a (Finite y) =
     (if (0 \<le> y) = (a = PosInfinity) then PosInfinity else NegInfinity)"
| "js_div a b = NaN"


subsection \<open>Values of any type\<close>

text \<open>
  A value of type \<open>unknown\<close>, as \<open>JSON.parse\<close> yields it or a caller passes it
  (functions and symbols, which are true as conditions like objects, are left out). A
  condition tests its truthiness: \<open>null\<close>, \<open>undefined\<close>, \<open>false\<close>, zero, NaN and the empty
  string are false, every other value is true.
\<close>

datatype js_value =
    JNull
  | JUndefined
  | JBoolean bool
  | JNumber js_number
  | JBigInt int
  | JString string
  | JArray "js_value list"
  | JObject "(string \<times> js_value) list"

fun ToBoolean :: "js_value \<Rightarrow> bool" where
  "ToBoolean JNull = False"
| "ToBoolean JUndefined = False"
| "ToBoolean (JBoolean b) = b"
| "ToBoolean (JNumber x) = (x \<noteq> NaN \<and> x \<noteq> Finite 0)"
| "ToBoolean (JBigInt n) = (n \<noteq> 0)"
| "ToBoolean (JString s) = (s \<noteq> [])"
| "ToBoolean (JArray xs) = True"
| "ToBoolean (JObject fields) = True"


subsection \<open>Loops that may throw\<close>

fun filter_throwing :: "('a \<Rightarrow> js_error + bool) \<Rightarrow> 'a list \<Rightarrow> js_error + 'a list" where
  \<comment> \<open>\<open>xs.filter(p)\<close> with a callback that may throw: the first exception ends the loop\<close>
  "filter_throwing p [] = Inr []"
| "filter_throwing p (x # xs) =
     (case p x of
        Inl e \<Rightarrow> Inl e
      | Inr keep \<Rightarrow>
          (case filter_throwing p xs of
             Inl e \<Rightarrow> Inl e
           | Inr ys \<Rightarrow> Inr (if keep then x # ys else ys)))"


fun find_first :: "('a \<Rightarrow> js_error + 'b option) \<Rightarrow> 'a list \<Rightarrow> js_error + 'b option" where
  \<comment> \<open>a \<open>for\<close> loop whose body may \<open>return\<close> a result, fall through or throw\<close>
  "find_first f [] = Inr None"
| "find_first f (x # xs) =
     (case f x of
        Inl e \<Rightarrow> Inl e
      | Inr (Some y) \<Rightarrow> Inr (Some y)
      | Inr None \<Rightarrow> find_first f xs)"

definition js_index :: "'a list \<Rightarrow> nat \<Rightarrow> 'a option" where
  \<comment> \<open>\<open>xs[i]\<close>: \<open>undefined\<close> (\<open>None\<close>) out of range\<close>
  "js_index xs i = (if i < length xs then Some (xs ! i) else None)"

definition truthy :: "string option \<Rightarrow> bool" where
  \<comment> \<open>a value of type \<open>string | undefined\<close> is truthy when defined and non-empty\<close>
  "truthy v = (case v of None \<Rightarrow> False | Some s \<Rightarrow> s \<noteq> [])"

definition or_else :: "string option \<Rightarrow> string option \<Rightarrow> string option" where
  \<comment> \<open>\<open>a || b\<close>\<close>
  "or_else a b = (if truthy a then a else b)"

definition template_string :: "string option \<Rightarrow> string" where
  \<comment> \<open>a value of type \<open>string | undefined\<close> inside a template literal\<close>
  "template_string v = (case v of None \<Rightarrow> ''undefined'' | Some s \<Rightarrow> s)"

section \<open>types.ts\<close>

record token_balance =
  accountIndex :: nat
  tb_mint :: string
  tb_owner :: string
  tb_amount :: string     \<comment> \<open>\<open>uiTokenAmount.amount\<close>\<close>
  tb_decimals :: int      \<comment> \<open>\<open>uiTokenAmount.decimals\<close>\<close>
  tb_programId :: string

record instruction =
  programIdIndex :: nat
  ix_data :: string
  ix_accounts :: "nat list"

text \<open>
  \<open>RawTransaction\<close>, with \<open>meta\<close> and \<open>transaction.message\<close> flattened. \<open>err\<close> has the type
  \<open>unknown | null\<close>: a node reports \<open>null\<close> for success and a variant name or an object
  for a failure, but any value may arrive. \<open>fee\<close> and the balances are lamport counts:
  integer-valued numbers.
\<close>

record raw_transaction =
  tx_signature :: string
  err :: js_value
  fee :: int
  preBalances :: "int list"
  postBalances :: "int list"
  preTokenBalances :: "token_balance list"
  postTokenBalances :: "token_balance list"
  logMessages :: "string list"
  accountKeys :: "string list"
  instructions :: "instruction list"
  blockTime :: "int option"
  slot :: int

datatype atomic_event_type = DEBIT_SOL | CREDIT_SOL | DEBIT_SPL | CREDIT_SPL

text \<open>
  \<open>BaseAtomicEvent\<close>. The analyzer fills \<open>account\<close> from \<open>accountKeys[i]\<close>, which is
  \<open>undefined\<close> beyond the end of the array, hence the option.
\<close>

record base_atomic_event =
  account :: "string option"
  amount :: string
  signature :: string
  timestamp :: "int option"

record spl_token_fields =
  mint :: string
  tokenAccount :: "string option"
  owner :: string
  decimals :: int
  programId :: string

datatype side = DEBIT | CREDIT

datatype atomic_event =
    SolTransferEvent side base_atomic_event
  | SplTokenTransferEvent side base_atomic_event spl_token_fields

fun event_type :: "atomic_event \<Rightarrow> atomic_event_type" where
  "event_type (SolTransferEvent DEBIT b) = DEBIT_SOL"
| "event_type (SolTransferEvent CREDIT b) = CREDIT_SOL"
| "event_type (SplTokenTransferEvent DEBIT b t) = DEBIT_SPL"
| "event_type (SplTokenTransferEvent CREDIT b t) = CREDIT_SPL"

fun base :: "atomic_event \<Rightarrow> base_atomic_event" where
  "base (SolTransferEvent d b) = b"
| "base (SplTokenTransferEvent d b t) = b"

fun type_name :: "atomic_event_type \<Rightarrow> string" where
  "type_name DEBIT_SOL = ''DEBIT_SOL''"
| "type_name CREDIT_SOL = ''CREDIT_SOL''"
| "type_name DEBIT_SPL = ''DEBIT_SPL''"
| "type_name CREDIT_SPL = ''CREDIT_SPL''"


record EventAggregatorConfig =
  amountTolerance :: js_number
  includeFeeEvents :: bool
  maxSwapHops :: int
  generateComplexEvents :: bool

record token_info =
  ti_mint :: string
  ti_amount :: string
  ti_decimals :: int

datatype meta_value =
    MNumber rat
  | MString string
  | MStrings "string list"
  | MNull

type_synonym metadata = "(string \<times> (string \<times> meta_value) list) list"

record common_fields =
  se_signature :: string
  se_timestamp :: "int option"
  atomicEvents :: "atomic_event list"
  metadata :: "metadata option"

datatype semantic_event =
    SwapEvent (common: common_fields) (swapper: "string option")
      (tokenIn: token_info) (tokenOut: token_info) (rate: "string option")
  | TransferEvent (common: common_fields) (sender: "string option")
      (receiver: "string option") (token: token_info) (transferType: string)
  | FailedTransactionEvent (common: common_fields) (error: js_value)
      (feePaid: string) (feePayer: string)
  | ComplexTransactionEvent (common: common_fields) (subEvents: "semantic_event list")
  | UnknownTransactionEvent (common: common_fields) (reason: string)
      (unmatchedEventsCount: nat)

fun semantic_type :: "semantic_event \<Rightarrow> string" where
  "semantic_type (SwapEvent c s i out r) = ''SWAP''"
| "semantic_type (TransferEvent c s r t k) = ''TRANSFER''"
| "semantic_type (FailedTransactionEvent c e p q) = ''TRANSACTION_FAILED''"
| "semantic_type (ComplexTransactionEvent c s) = ''COMPLEX_TRANSACTION''"
| "semantic_type (UnknownTransactionEvent c r n) = ''UNKNOWN_TRANSACTION''"

definition metadata_field :: "semantic_event \<Rightarrow> string \<Rightarrow> string \<Rightarrow> meta_value option" where
  \<comment> \<open>\<open>event.metadata?.[plugin]?.[field]\<close>\<close>
  "metadata_field ev plugin field =
     (case metadata (common ev) of
        None \<Rightarrow> None
      | Some m \<Rightarrow> (case map_of m plugin of
                     None \<Rightarrow> None
                   | Some entries \<Rightarrow> map_of entries field))"

text \<open>\<open>EnricherPlugin\<close>: \<open>enrich(event, tx)\<close> returns a promise; \<open>Inl\<close> is a rejection.\<close>

type_synonym EnricherPlugin = "semantic_event \<Rightarrow> raw_transaction \<Rightarrow> js_error + semantic_event"


section \<open>StateDiffAnalyzer\<close>


record BalanceChange =
  bc_accountIndex :: nat
  bc_account :: "string option"
  bc_preBalance :: int
  bc_postBalance :: int
  bc_change :: int


definition balance_or_zero :: "int list \<Rightarrow> nat \<Rightarrow> int" where
  \<comment> \<open>\<open>balances[i] || 0\<close>\<close>
  "balance_or_zero balances i = (case js_index balances i of None \<Rightarrow> 0 | Some b \<Rightarrow> b)"


definition filterFeeChanges :: "BalanceChange list \<Rightarrow> int \<Rightarrow> BalanceChange list" where
  \<comment> \<open>the source compares by object identity; the changes differ in their account index\<close>
  "filterFeeChanges changes fee_amount =
     (let feeDebits = filter (\<lambda>c. bc_change c = - fee_amount) changes
      in if length feeDebits = 1 then filter (\<lambda>c. c \<noteq> hd feeDebits) changes
         else changes)"




definition balance_map :: "token_balance list \<Rightarrow> nat \<Rightarrow> token_balance option" where
  \<comment> \<open>a \<open>Map\<close> filled by \<open>set(balance.accountIndex, balance)\<close>: the last entry of an index
      wins\<close>
  "balance_map balances = map_of (rev (map (\<lambda>b. (accountIndex b, b)) balances))"

fun insertion_order :: "nat list \<Rightarrow> nat list \<Rightarrow> nat list" where
  \<comment> \<open>the elements of a \<open>Set\<close> built from a list: each once, in the order first seen\<close>
  "insertion_order seen [] = rev seen"
| "insertion_order seen (x # xs) =
     (if x \<in> set seen then insertion_order seen xs else insertion_order (x # seen) xs)"

definition allAccountIndices :: "raw_transaction \<Rightarrow> nat list" where
  "allAccountIndices rawTx =
     insertion_order []
       (map accountIndex (preTokenBalances rawTx) @ map accountIndex (postTokenBalances rawTx))"







section \<open>EventAggregator\<close>

definition defaultAggregatorConfig :: EventAggregatorConfig where
  "defaultAggregatorConfig =
     \<lparr>amountTolerance = Finite (js_lit (1 / 1000)), includeFeeEvents = False, maxSwapHops = 3,
      generateComplexEvents = True\<rparr>"

datatype direction = IN | OUT

record TokenMovement =
  mv_account :: "string option"
  mv_mint :: string
  mv_amount :: string
  mv_decimals :: int
  mv_direction :: direction
  mv_atomicEvent :: atomic_event

record SwapCandidate =
  sc_swapper :: "string option"
  sc_tokenIn :: token_info
  sc_tokenOut :: token_info
  sc_atomicEvents :: "atomic_event list"
  sc_confidence :: rat

record TransferCandidate =
  tr_sender :: "string option"
  tr_receiver :: "string option"
  tr_token :: token_info
  tr_atomicEvents :: "atomic_event list"
  tr_confidence :: rat

fun token_movement :: "atomic_event \<Rightarrow> TokenMovement" where
  "token_movement (SplTokenTransferEvent d b t) =
     \<lparr>mv_account = account b, mv_mint = mint t, mv_amount = amount b,
      mv_decimals = decimals t,
      mv_direction = (if d = DEBIT then OUT else IN),
      mv_atomicEvent = SplTokenTransferEvent d b t\<rparr>"
| "token_movement (SolTransferEvent d b) =
     \<lparr>mv_account = account b, mv_mint = ''SOL'', mv_amount = amount b,
      mv_decimals = 9,
      mv_direction = (if d = DEBIT then OUT else IN),
      mv_atomicEvent = SolTransferEvent d b\<rparr>"

definition extractTokenMovements :: "atomic_event list \<Rightarrow> TokenMovement list" where
  "extractTokenMovements events = map token_movement events"

fun group_insert :: "'k \<Rightarrow> 'v \<Rightarrow> ('k \<times> 'v list) list \<Rightarrow> ('k \<times> 'v list) list" where
  \<comment> \<open>\<open>existing = m.get(k) || []; existing.push(v); m.set(k, existing)\<close> on an
      insertion-ordered \<open>Map\<close>\<close>
  "group_insert k v [] = [(k, [v])]"
| "group_insert k v ((k', vs) # rest) =
     (if k = k' then (k', vs @ [v]) # rest else (k', vs) # group_insert k v rest)"

definition group_by :: "('v \<Rightarrow> 'k) \<Rightarrow> 'v list \<Rightarrow> ('k \<times> 'v list) list" where
  "group_by key xs = foldl (\<lambda>m x. group_insert (key x) x m) [] xs"

definition calculateSwapConfidence ::
  "TokenMovement \<Rightarrow> TokenMovement \<Rightarrow> TokenMovement list \<Rightarrow> js_error + rat" where
  "calculateSwapConfidence inMove outMove allMovements =
     (case BigInt (mv_amount inMove) of
        Inl e \<Rightarrow> Inl e
      | Inr inAmount \<Rightarrow>
          (case BigInt (mv_amount outMove) of
             Inl e \<Rightarrow> Inl e
           | Inr outAmount \<Rightarrow>
               let confidence = js_lit (5 / 10);
                   confidence = (if 0 < inAmount \<and> 0 < outAmount
                                 then js_add confidence (js_lit (2 / 10)) else confidence);
                   accountMovements =
                     filter (\<lambda>m. mv_account m = mv_account inMove) allMovements;
                   confidence = (if length accountMovements = 2
                                 then js_add confidence (js_lit (3 / 10)) else confidence)
               in Inr (Math_min confidence 1)))"

definition identifySwapPattern :: "atomic_event list \<Rightarrow> js_error + SwapCandidate option" where
  "identifySwapPattern events =
     (let movements = extractTokenMovements events;
          accountMovements = group_by mv_account movements
      in find_first (\<lambda>(acct, accountMoves).
           let inMovements = filter (\<lambda>m. mv_direction m = IN) accountMoves;
               outMovements = filter (\<lambda>m. mv_direction m = OUT) accountMoves
           in find_first (\<lambda>inMove.
                find_first (\<lambda>outMove.
                  if mv_mint inMove \<noteq> mv_mint outMove
                  then (case calculateSwapConfidence inMove outMove movements of
                          Inl e \<Rightarrow> Inl e
                        | Inr confidence \<Rightarrow>
                            if js_lit (7 / 10) < confidence
                            then Inr (Some
                              \<lparr>sc_swapper = acct,
                               sc_tokenIn = \<lparr>ti_mint = mv_mint outMove,
                                             ti_amount = mv_amount outMove,
                                             ti_decimals = mv_decimals outMove\<rparr>,
                               sc_tokenOut = \<lparr>ti_mint = mv_mint inMove,
                                              ti_amount = mv_amount inMove,
                                              ti_decimals = mv_decimals inMove\<rparr>,
                               sc_atomicEvents = [mv_atomicEvent inMove, mv_atomicEvent outMove],
                               sc_confidence = confidence\<rparr>)
                            else Inr None)
                  else Inr None) outMovements) inMovements) accountMovements)"

definition amountsMatch :: "EventAggregatorConfig \<Rightarrow> string \<Rightarrow> string \<Rightarrow> js_error + bool" where
  "amountsMatch config amount1 amount2 =
     (case BigInt amount1 of
        Inl e \<Rightarrow> Inl e
      | Inr a1 \<Rightarrow>
          (case BigInt amount2 of
             Inl e \<Rightarrow> Inl e
           | Inr a2 \<Rightarrow>
               if a1 = a2 then Inr True
               else let larger = (if a2 < a1 then a1 else a2);
                        smaller = (if a1 < a2 then a1 else a2);
                        difference = larger - smaller
                    in case BigInt_number
                              (Math_floor (js_mul (amountTolerance config) (Finite 100000))) of
                         Inl e \<Rightarrow> Inl e
                       | Inr scale \<Rightarrow>
                           let toleranceAmount = bigint_div (larger * scale) 100000
                           in Inr (difference \<le> toleranceAmount)))"

definition calculateTransferConfidence ::
  "EventAggregatorConfig \<Rightarrow> TokenMovement \<Rightarrow> TokenMovement \<Rightarrow> TokenMovement list
     \<Rightarrow> js_error + rat" where
  "calculateTransferConfidence config inMove outMove allMovements =
     (case (if mv_amount inMove = mv_amount outMove
            then Inr (js_add (js_lit (6 / 10)) (js_lit (3 / 10)))
            else (case amountsMatch config (mv_amount inMove) (mv_amount outMove) of
                    Inl e \<Rightarrow> Inl e
                  | Inr matches \<Rightarrow>
                      Inr (if matches then js_add (js_lit (6 / 10)) (js_lit (25 / 100))
                           else js_lit (6 / 10)))) of
        Inl e \<Rightarrow> Inl e
      | Inr confidence \<Rightarrow>
          let sameTokenMovements = filter (\<lambda>m. mv_mint m = mv_mint inMove) allMovements;
              confidence = (if length sameTokenMovements = 2
                            then js_add confidence (js_lit (2 / 10)) else confidence)
          in Inr (Math_min confidence 1))"

definition identifyTransferPattern ::
  "EventAggregatorConfig \<Rightarrow> atomic_event list \<Rightarrow> js_error + TransferCandidate option" where
  "identifyTransferPattern config events =
     (let movements = extractTokenMovements events;
          tokenMovements = group_by mv_mint movements
      in find_first (\<lambda>(mint_key, tokenMoves).
           let inMovements = filter (\<lambda>m. mv_direction m = IN) tokenMoves;
               outMovements = filter (\<lambda>m. mv_direction m = OUT) tokenMoves
           in find_first (\<lambda>inMove.
                find_first (\<lambda>outMove.
                  if mv_account inMove \<noteq> mv_account outMove
                  then (case amountsMatch config (mv_amount inMove) (mv_amount outMove) of
                          Inl e \<Rightarrow> Inl e
                        | Inr False \<Rightarrow> Inr None
                        | Inr True \<Rightarrow>
                            (case calculateTransferConfidence config inMove outMove movements of
                               Inl e \<Rightarrow> Inl e
                             | Inr confidence \<Rightarrow>
                                 if js_lit (8 / 10) < confidence
                                 then Inr (Some
                                   \<lparr>tr_sender = mv_account outMove,
                                    tr_receiver = mv_account inMove,
                                    tr_token = \<lparr>ti_mint = mint_key,
                                                ti_amount = mv_amount outMove,
                                                ti_decimals = mv_decimals outMove\<rparr>,
                                    tr_atomicEvents =
                                      [mv_atomicEvent inMove, mv_atomicEvent outMove],
                                    tr_confidence = confidence\<rparr>)
                                 else Inr None))
                  else Inr None) outMovements) inMovements) tokenMovements)"

definition filterFeeEvents :: "atomic_event list \<Rightarrow> raw_transaction \<Rightarrow> js_error + atomic_event list" where
  \<comment> \<open>\<open>BigInt(tx.meta.fee)\<close> of the integer-valued \<open>fee\<close> is that integer\<close>
  "filterFeeEvents events tx =
     filter_throwing (\<lambda>event.
        if event_type event = DEBIT_SOL
        then (case BigInt (amount (base event)) of
                Inl e \<Rightarrow> Inl e
              | Inr amt \<Rightarrow> Inr (amt \<noteq> fee tx))
        else Inr True) events"

definition createFailedTransactionEvent :: "atomic_event list \<Rightarrow> raw_transaction \<Rightarrow> semantic_event" where
  \<comment> \<open>the returned object has no \<open>metadata\<close> property\<close>
  "createFailedTransactionEvent events tx =
     (let feeEvent = find (\<lambda>event. event_type event = DEBIT_SOL
                              \<and> amount (base event) = number_toString (fee tx)) events
      in FailedTransactionEvent
           \<lparr>se_signature = tx_signature tx, se_timestamp = blockTime tx,
            atomicEvents = events, metadata = None\<rparr>
           (err tx)
           (number_toString (fee tx))
           (case or_else
                   (or_else (case feeEvent of None \<Rightarrow> None | Some e \<Rightarrow> account (base e))
                            (js_index (accountKeys tx) 0))
                   (Some ''unknown'') of
              Some payer \<Rightarrow> payer
            | None \<Rightarrow> ''unknown''))"

definition createSwapEvent :: "SwapCandidate \<Rightarrow> raw_transaction \<Rightarrow> js_error + semantic_event" where
  "createSwapEvent candidate tx =
     (case BigInt (ti_amount (sc_tokenIn candidate)) of
        Inl e \<Rightarrow> Inl e
      | Inr tokenInAmount \<Rightarrow>
          (case BigInt (ti_amount (sc_tokenOut candidate)) of
             Inl e \<Rightarrow> Inl e
           | Inr tokenOutAmount \<Rightarrow>
               Inr (SwapEvent
                      \<lparr>se_signature = tx_signature tx, se_timestamp = blockTime tx,
                       atomicEvents = sc_atomicEvents candidate,
                       metadata = Some [(''aggregator'',
                                         [(''confidence'', MNumber (sc_confidence candidate))])]\<rparr>
                      (sc_swapper candidate)
                      (sc_tokenIn candidate)
                      (sc_tokenOut candidate)
                      (if 0 < tokenInAmount
                       then Some (Number_toString
                                    (js_div (Number_of_bigint tokenOutAmount)
                                            (Number_of_bigint tokenInAmount)))
                       else None))))"

definition createTransferEvent :: "TransferCandidate \<Rightarrow> raw_transaction \<Rightarrow> semantic_event" where
  "createTransferEvent candidate tx =
     TransferEvent
       \<lparr>se_signature = tx_signature tx, se_timestamp = blockTime tx,
        atomicEvents = tr_atomicEvents candidate,
        metadata = Some [(''aggregator'',
                          [(''confidence'', MNumber (tr_confidence candidate))])]\<rparr>
       (tr_sender candidate)
       (tr_receiver candidate)
       (tr_token candidate)
       ''DIRECT''"

definition createComplexTransactionEvent :: "atomic_event list \<Rightarrow> raw_transaction \<Rightarrow> semantic_event" where
  "createComplexTransactionEvent events tx =
     ComplexTransactionEvent
       \<lparr>se_signature = tx_signature tx, se_timestamp = blockTime tx,
        atomicEvents = events,
        metadata = Some [(''aggregator'',
                          [(''atomicEventCount'', MNumber (of_nat (length events)))])]\<rparr>
       []"

definition createUnknownTransactionEvent ::
  "atomic_event list \<Rightarrow> raw_transaction \<Rightarrow> string \<Rightarrow> semantic_event" where
  "createUnknownTransactionEvent events tx why =
     UnknownTransactionEvent
       \<lparr>se_signature = tx_signature tx, se_timestamp = blockTime tx,
        atomicEvents = events,
        metadata = Some [(''system'',
                          [(''fee'', MString (number_toString (fee tx))),
                           (''logMessages'', MStrings (logMessages tx))])]\<rparr>
       why
       (length events)"

fun run_enrichers ::
  "EnricherPlugin list \<Rightarrow> raw_transaction \<Rightarrow> semantic_event \<Rightarrow> js_error + semantic_event" where
  \<comment> \<open>\<open>for (const enricher of this.enrichers) event = await enricher.enrich(event, tx)\<close>:
      no \<open>try\<close> surrounds the \<open>await\<close>, so a rejection leaves the loop and \<open>aggregate\<close>\<close>
  "run_enrichers [] tx event = Inr event"
| "run_enrichers (enricher # rest) tx event =
     (case enricher event tx of
        Inl e \<Rightarrow> Inl e
      | Inr event' \<Rightarrow> run_enrichers rest tx event')"

definition event_key :: "atomic_event \<Rightarrow> string" where
  \<comment> \<open>the template literal \<open>${e.signature}-${e.type}-${e.account}\<close>\<close>
  "event_key e =
     signature (base e) @ ''-'' @ type_name (event_type e) @ ''-''
       @ template_string (account (base e))"

definition aggregate ::
  "EventAggregatorConfig \<Rightarrow> EnricherPlugin list \<Rightarrow> atomic_event list \<Rightarrow> raw_transaction
     \<Rightarrow> js_error + semantic_event" where
  "aggregate config enrichers events tx =
     (if ToBoolean (err tx)
      then run_enrichers enrichers tx (createFailedTransactionEvent events tx)
      else
        (case (if includeFeeEvents config then Inr events else filterFeeEvents events tx) of
           Inl e \<Rightarrow> Inl e
         | Inr filteredEvents \<Rightarrow>
             if length filteredEvents = 0
             then run_enrichers enrichers tx
                    (createUnknownTransactionEvent events tx
                       ''No meaningful events after filtering'')
             else
               (case identifySwapPattern filteredEvents of
                  Inl e \<Rightarrow> Inl e
                | Inr (Some swapCandidate) \<Rightarrow>
                    (case createSwapEvent swapCandidate tx of
                       Inl e \<Rightarrow> Inl e
                     | Inr event \<Rightarrow> run_enrichers enrichers tx event)
                | Inr None \<Rightarrow>
                    (case identifyTransferPattern config filteredEvents of
                       Inl e \<Rightarrow> Inl e
                     | Inr (Some transferCandidate) \<Rightarrow>
                         let usedEventSignatures =
                               set (map event_key (tr_atomicEvents transferCandidate));
                             unmatchedEvents =
                               filter (\<lambda>e. event_key e \<notin> usedEventSignatures) filteredEvents
                         in if 0 < length unmatchedEvents \<and> generateComplexEvents config
                            then run_enrichers enrichers tx
                                   (createComplexTransactionEvent filteredEvents tx)
                            else run_enrichers enrichers tx
                                   (createTransferEvent transferCandidate tx)
                     | Inr None \<Rightarrow>
                         if 1 < length filteredEvents \<and> generateComplexEvents config
                         then run_enrichers enrichers tx
                                (createComplexTransactionEvent filteredEvents tx)
                         else run_enrichers enrichers tx
                                (createUnknownTransactionEvent events tx
                                   ''Could not identify transaction pattern'')))))"


section \<open>Reference values and example inputs\<close>

subsection \<open>The exact events of an account index\<close>

text \<open>
  What the balances of a transaction record for an account index, read without the
  analyzer and computed on integers: the exact amounts, the describing token record and
  the events of exact amount that the analyzer's events are compared with.
\<close>

definition token_amount :: "token_balance list \<Rightarrow> nat \<Rightarrow> int" where
  \<comment> \<open>the amount that a list of token balances records for an account index: the integer
      its last record for the index spells, and 0 without a record\<close>
  "token_amount balances i =
     (case balance_map balances i of
        None \<Rightarrow> 0
      | Some b \<Rightarrow> (case BigInt (tb_amount b) of Inr n \<Rightarrow> n | Inl e \<Rightarrow> 0))"

definition token_record :: "raw_transaction \<Rightarrow> nat \<Rightarrow> token_balance option" where
  \<comment> \<open>the record that describes the token account of an account index: the one after the
      transaction, or else the one before\<close>
  "token_record tx i =
     (case balance_map (postTokenBalances tx) i of
        Some b \<Rightarrow> Some b
      | None \<Rightarrow> balance_map (preTokenBalances tx) i)"

definition exact_token_event :: "raw_transaction \<Rightarrow> nat \<Rightarrow> token_balance \<Rightarrow> atomic_event" where
  \<comment> \<open>the token event of the account index \<open>i\<close> whose token account the record \<open>b\<close>
      describes: its amount is the exact difference of the recorded amounts\<close>
  "exact_token_event tx i b =
     (let pre = token_amount (preTokenBalances tx) i;
          post = token_amount (postTokenBalances tx) i
      in SplTokenTransferEvent (if pre < post then CREDIT else DEBIT)
           \<lparr>account = Some (tb_owner b), amount = bigint_toString \<bar>post - pre\<bar>,
            signature = tx_signature tx, timestamp = blockTime tx\<rparr>
           \<lparr>mint = tb_mint b, tokenAccount = js_index (accountKeys tx) i,
            owner = tb_owner b, decimals = tb_decimals b, programId = tb_programId b\<rparr>)"

definition exact_native_event :: "raw_transaction \<Rightarrow> nat \<Rightarrow> atomic_event" where
  \<comment> \<open>the native event of the account index \<open>i\<close>: its amount is the exact difference of
      the two balances, a missing balance counting 0\<close>
  "exact_native_event tx i =
     (let pre = balance_or_zero (preBalances tx) i;
          post = balance_or_zero (postBalances tx) i
      in SolTransferEvent (if pre < post then CREDIT else DEBIT)
           \<lparr>account = js_index (accountKeys tx) i, amount = bigint_toString \<bar>post - pre\<bar>,
            signature = tx_signature tx, timestamp = blockTime tx\<rparr>)"


subsection \<open>Example transactions and events\<close>

definition example_tx :: raw_transaction where
  \<comment> \<open>a successful transaction with the usual fee of 5000 lamports\<close>
  "example_tx =
     \<lparr>tx_signature = ''sig'', err = JNull, fee = 5000, preBalances = [], postBalances = [],
      preTokenBalances = [], postTokenBalances = [], logMessages = [],
      accountKeys = [''fee_payer''], instructions = [], blockTime = Some 1640995200,
      slot = 123456\<rparr>"





definition sol_event :: "side \<Rightarrow> string \<Rightarrow> string \<Rightarrow> atomic_event" where
  "sol_event d a n =
     SolTransferEvent d
       \<lparr>account = Some a, amount = n, signature = ''sig'', timestamp = Some 1640995200\<rparr>"

definition spl_event :: "side \<Rightarrow> string \<Rightarrow> string \<Rightarrow> string \<Rightarrow> atomic_event" where
  "spl_event d a m n =
     SplTokenTransferEvent d
       \<lparr>account = Some a, amount = n, signature = ''sig'', timestamp = Some 1640995200\<rparr>
       \<lparr>mint = m, tokenAccount = Some (a @ ''_'' @ m), owner = a, decimals = 6,
        programId = ''TokenkegQfeZyiNwAJbNbGKPFXCWuBvf9Ss623VQ5DA''\<rparr>"

definition throwing_enricher :: EnricherPlugin where
  \<comment> \<open>an enricher whose \<open>enrich\<close> always throws\<close>
  "throwing_enricher event tx = Inl (Rejected ''boom'')"

definition noop_enricher :: EnricherPlugin where
  \<comment> \<open>an enricher that does not apply and returns the event as it is\<close>
  "noop_enricher event tx = Inr event"


definition large_token_tx :: raw_transaction where
  \<comment> \<open>a native transfer; the token account at index 2 goes from \<open>2^64 - 1\<close> to \<open>2^63\<close>, and
      the one at index 3 is created with \<open>2^63\<close>, the binary64 value next to the difference\<close>
  "large_token_tx =
     example_tx\<lparr>preBalances := [2000000000, 0, 0], postBalances := [999995000, 1000000000, 0],
                accountKeys := [''S'', ''R'', ''T'', ''U''],
                preTokenBalances :=
                  [\<lparr>accountIndex = 2, tb_mint = ''M'', tb_owner = ''S'',
                    tb_amount = ''18446744073709551615'', tb_decimals = 0,
                    tb_programId = ''TokenkegQfeZyiNwAJbNbGKPFXCWuBvf9Ss623VQ5DA''\<rparr>],
                postTokenBalances :=
                  [\<lparr>accountIndex = 2, tb_mint = ''M'', tb_owner = ''S'',
                    tb_amount = ''9223372036854775808'', tb_decimals = 0,
                    tb_programId = ''TokenkegQfeZyiNwAJbNbGKPFXCWuBvf9Ss623VQ5DA''\<rparr>,
                   \<lparr>accountIndex = 3, tb_mint = ''M'', tb_owner = ''R'',
                    tb_amount = ''9223372036854775808'', tb_decimals = 0,
                    tb_programId = ''TokenkegQfeZyiNwAJbNbGKPFXCWuBvf9Ss623VQ5DA''\<rparr>]\<rparr>"

section \<open>Properties\<close>

subsection \<open>Evaluation of the literals\<close>


subsection \<open>The enrichment loop\<close>

lemma run_enrichers_append:
  "run_enrichers (pre @ post) tx ev =
     (case run_enrichers pre tx ev of Inl e \<Rightarrow> Inl e | Inr ev' \<Rightarrow> run_enrichers post tx ev')"
  by (induction pre arbitrary: ev) (auto split: sum.splits)

lemma aggregate_enrichers:
  "aggregate config enrichers events tx =
     (case aggregate config [] events tx of
        Inl e \<Rightarrow> Inl e
      | Inr ev \<Rightarrow> run_enrichers enrichers tx ev)"
proof (cases "ToBoolean (err tx)")
  case True
  then show ?thesis by (simp add: aggregate_def)
next
  case ok: False
  show ?thesis
  proof (cases "if includeFeeEvents config then Inr events else filterFeeEvents events tx")
    case (Inl e)
    with ok show ?thesis by (simp add: aggregate_def)
  next
    case (Inr filteredEvents)
    show ?thesis
    proof (cases "identifySwapPattern filteredEvents")
      case (Inl e)
      with ok Inr show ?thesis by (simp add: aggregate_def)
    next
      case sw: (Inr swap)
      show ?thesis
      proof (cases swap)
        case (Some sc)
        with ok Inr sw show ?thesis
          by (cases "createSwapEvent sc tx") (simp_all add: aggregate_def)
      next
        case noswap: None
        show ?thesis
        proof (cases "identifyTransferPattern config filteredEvents")
          case (Inl e)
          with ok Inr sw noswap show ?thesis by (simp add: aggregate_def)
        next
          case tr: (Inr transfer)
          with ok Inr sw noswap show ?thesis
            by (cases transfer) (simp_all add: aggregate_def Let_def)
        qed
      qed
    qed
  qed
qed

subsection \<open>Failed transactions\<close>












subsection \<open>Enricher failures\<close>

text \<open>
  Claim C4, as stated, fails: \<open>aggregate\<close> awaits each \<open>enrich\<close> call outside any
  \<open>try\<close>, and the plugin interface has no name under which an error could be filed. An
  enricher that throws makes \<open>aggregate\<close> reject.
\<close>

theorem C4_counterexample:
  "aggregate defaultAggregatorConfig [throwing_enricher] [] example_tx = Inl (Rejected ''boom'')"
  by (simp add: aggregate_def example_tx_def defaultAggregatorConfig_def filterFeeEvents_def
        throwing_enricher_def)

text \<open>
  Claim C4, amended. Let the classification of \<open>aggregate\<close> succeed with an event. If
  an enricher rejects on the event handed to it by the enrichers before it, \<open>aggregate\<close>
  rejects with that failure, whatever enrichers follow; if the whole list resolves,
  \<open>aggregate\<close> resolves with the last enricher's event.
\<close>

theorem C4_enricher_failure_propagates:
  "aggregate config [] events tx = Inr ev0 \<Longrightarrow>
   (run_enrichers pre tx ev0 = Inr ev1 \<and> enricher ev1 tx = Inl e
      \<longrightarrow> aggregate config (pre @ enricher # post) events tx = Inl e)
   \<and> (run_enrichers enrichers tx ev0 = Inr ev2
      \<longrightarrow> aggregate config enrichers events tx = Inr ev2)"
  by (simp add: aggregate_enrichers [of config "pre @ enricher # post"]
        aggregate_enrichers [of config enrichers] run_enrichers_append)

theorem C4_enricher_failure_propagates_witness:
  "aggregate defaultAggregatorConfig [] [] example_tx
     = Inr (createUnknownTransactionEvent [] example_tx ''No meaningful events after filtering'')
   \<and> run_enrichers [noop_enricher] example_tx
         (createUnknownTransactionEvent [] example_tx ''No meaningful events after filtering'')
       = Inr (createUnknownTransactionEvent [] example_tx
                ''No meaningful events after filtering'')
   \<and> throwing_enricher
         (createUnknownTransactionEvent [] example_tx ''No meaningful events after filtering'')
         example_tx
       = Inl (Rejected ''boom'')
   \<and> aggregate defaultAggregatorConfig ([noop_enricher] @ throwing_enricher # [noop_enricher])
         [] example_tx
       = Inl (Rejected ''boom'')
   \<and> aggregate defaultAggregatorConfig [noop_enricher] [] example_tx
       = Inr (createUnknownTransactionEvent [] example_tx
                ''No meaningful events after filtering'')"
proof -
  let ?ev = "createUnknownTransactionEvent [] example_tx ''No meaningful events after filtering''"
  have a: "aggregate defaultAggregatorConfig [] [] example_tx = Inr ?ev"
    by (simp add: aggregate_def example_tx_def defaultAggregatorConfig_def filterFeeEvents_def)
  have b: "run_enrichers [noop_enricher] example_tx ?ev = Inr ?ev"
    by (simp add: noop_enricher_def)
  have c: "throwing_enricher ?ev example_tx = Inl (Rejected ''boom'')"
    by (simp add: throwing_enricher_def)
  from C4_enricher_failure_propagates [OF a, of "[noop_enricher]" ?ev throwing_enricher
      "Rejected ''boom''" "[noop_enricher]" "[noop_enricher]" ?ev] a b c
  show ?thesis by blast
qed

subsection \<open>Fee events\<close>

lemma BigInt_5000: "BigInt ''5000'' = Inr 5000"
  by code_simp

lemma BigInt_7: "BigInt ''7'' = Inr 7"
  by code_simp

lemma filter_throwing_total:
  assumes "\<And>x. x \<in> set xs \<Longrightarrow> p x = Inr (q x)"
  shows "filter_throwing p xs = Inr (filter q xs)"
  using assms by (induction xs) auto

text \<open>
  Claim C1, as stated, fails: the aggregator's filter has no count. With two DEBIT_SOL
  events of the fee amount it drops both, where the extractor's \<open>filterFeeChanges\<close> keeps
  both of the corresponding balance changes.
\<close>

theorem C1_counterexample:
  "filterFeeEvents [sol_event DEBIT ''A'' ''5000'', sol_event DEBIT ''B'' ''5000''] example_tx
     = Inr []
   \<and> filterFeeChanges
       [\<lparr>bc_accountIndex = 0, bc_account = Some ''A'', bc_preBalance = 10000,
         bc_postBalance = 5000, bc_change = - 5000\<rparr>,
        \<lparr>bc_accountIndex = 1, bc_account = Some ''B'', bc_preBalance = 10000,
         bc_postBalance = 5000, bc_change = - 5000\<rparr>] 5000
     = [\<lparr>bc_accountIndex = 0, bc_account = Some ''A'', bc_preBalance = 10000,
         bc_postBalance = 5000, bc_change = - 5000\<rparr>,
        \<lparr>bc_accountIndex = 1, bc_account = Some ''B'', bc_preBalance = 10000,
         bc_postBalance = 5000, bc_change = - 5000\<rparr>]"
  by (simp add: filterFeeEvents_def sol_event_def BigInt_5000 example_tx_def filterFeeChanges_def)

text \<open>
  Claim C1, amended. \<open>filterFeeEvents\<close> drops every DEBIT_SOL event whose amount is the
  fee, however many there are, and keeps every other event in its place. (It returns
  whenever the amounts of the DEBIT_SOL events are integer literals.)
\<close>

theorem C1_filterFeeEvents_drops_every_fee_debit:
  "\<forall>e \<in> set events. event_type e = DEBIT_SOL \<longrightarrow> (\<exists>n. BigInt (amount (base e)) = Inr n) \<Longrightarrow>
   filterFeeEvents events tx =
     Inr (filter (\<lambda>e. \<not> (event_type e = DEBIT_SOL \<and> BigInt (amount (base e)) = Inr (fee tx)))
            events)"
  unfolding filterFeeEvents_def
  by (rule filter_throwing_total) auto

theorem C1_filterFeeEvents_drops_every_fee_debit_witness:
  "BigInt (amount (base (sol_event DEBIT ''A'' ''5000''))) = Inr 5000
   \<and> filterFeeEvents
        [sol_event DEBIT ''A'' ''5000'', sol_event CREDIT ''C'' ''7'',
         sol_event DEBIT ''B'' ''5000'', sol_event DEBIT ''D'' ''7''] example_tx
      = Inr [sol_event CREDIT ''C'' ''7'', sol_event DEBIT ''D'' ''7'']"
proof -
  let ?evs = "[sol_event DEBIT ''A'' ''5000'', sol_event CREDIT ''C'' ''7'',
               sol_event DEBIT ''B'' ''5000'', sol_event DEBIT ''D'' ''7'']"
  have h: "\<forall>e \<in> set ?evs. event_type e = DEBIT_SOL \<longrightarrow> (\<exists>n. BigInt (amount (base e)) = Inr n)"
    by (simp add: sol_event_def BigInt_5000 BigInt_7)
  have "BigInt (amount (base (sol_event DEBIT ''A'' ''5000''))) = Inr 5000"
    by (simp add: sol_event_def BigInt_5000)
  moreover have "filterFeeEvents ?evs example_tx
      = Inr [sol_event CREDIT ''C'' ''7'', sol_event DEBIT ''D'' ''7'']"
    using C1_filterFeeEvents_drops_every_fee_debit [OF h, of example_tx]
    by (simp add: sol_event_def BigInt_5000 BigInt_7 example_tx_def)
  ultimately show ?thesis by blast
qed

subsection \<open>Tolerance matching\<close>

lemma default_scale:
  "BigInt_number (Math_floor (js_mul (amountTolerance defaultAggregatorConfig) (Finite 100000)))
     = Inr 100"
  by code_simp

lemma tolerance_amount:
  "0 \<le> larger \<Longrightarrow> bigint_div (larger * 100) 100000 = larger div 1000"
  by (simp add: bigint_div_def signed_divide_int_def sgn_if)

lemma le_div_1000: "d \<le> m div 1000 \<longleftrightarrow> 1000 * d \<le> m" for d m :: int
  by linarith

lemma amountsMatch_default:
  assumes "BigInt s1 = Inr a" "BigInt s2 = Inr b" "0 \<le> max a b"
  shows "amountsMatch defaultAggregatorConfig s1 s2 = Inr (a = b \<or> 1000 * \<bar>a - b\<bar> \<le> max a b)"
proof -
  consider "a = b" | "a < b" | "b < a" by linarith
  then show ?thesis
  proof cases
    case 1
    with assms show ?thesis by (simp add: amountsMatch_def)
  next
    case 2
    then have "0 \<le> b" using assms(3) by simp
    with 2 assms(1,2) show ?thesis
      by (simp add: amountsMatch_def default_scale Let_def tolerance_amount le_div_1000)
  next
    case 3
    then have "0 \<le> a" using assms(3) by simp
    with 3 assms(1,2) show ?thesis
      by (simp add: amountsMatch_def default_scale Let_def tolerance_amount le_div_1000)
  qed
qed


text \<open>
  Claim C6. Under the default tolerance ratio 0.001 two non-negative amounts match
  exactly when they are equal or a thousand times their difference is at most the larger
  one. So a pair whose difference is exactly a thousandth of the larger amount matches,
  and a pair whose difference is one unit more does not. The ratio is scaled by
  \<open>BigInt(Math.floor(0.001 * 100000)) = 100n\<close> and the tolerance is the bigint
  \<open>larger * 100 / 100000\<close>: no amount goes through a floating-point operation.
\<close>

theorem C6_tolerance_boundary:
  "BigInt s1 = Inr a \<Longrightarrow> BigInt s2 = Inr b \<Longrightarrow> 0 \<le> a \<Longrightarrow> 0 \<le> b \<Longrightarrow>
     amountsMatch defaultAggregatorConfig s1 s2 = Inr (a = b \<or> 1000 * \<bar>a - b\<bar> \<le> max a b)
     \<and> (1000 * \<bar>a - b\<bar> = max a b \<longrightarrow> amountsMatch defaultAggregatorConfig s1 s2 = Inr True)
     \<and> (1000 * (\<bar>a - b\<bar> - 1) = max a b
          \<longrightarrow> amountsMatch defaultAggregatorConfig s1 s2 = Inr False)
     \<and> BigInt_number
           (Math_floor (js_mul (amountTolerance defaultAggregatorConfig) (Finite 100000)))
         = Inr 100"
proof -
  assume p: "BigInt s1 = Inr a" "BigInt s2 = Inr b" and nn: "0 \<le> a" "0 \<le> b"
  have m: "amountsMatch defaultAggregatorConfig s1 s2
             = Inr (a = b \<or> 1000 * \<bar>a - b\<bar> \<le> max a b)"
    using p nn by (intro amountsMatch_default) auto
  have "1000 * \<bar>a - b\<bar> = max a b \<longrightarrow> (a = b \<or> 1000 * \<bar>a - b\<bar> \<le> max a b)"
    by simp
  moreover have "1000 * (\<bar>a - b\<bar> - 1) = max a b \<longrightarrow> \<not> (a = b \<or> 1000 * \<bar>a - b\<bar> \<le> max a b)"
  proof (intro impI notI)
    assume eq: "1000 * (\<bar>a - b\<bar> - 1) = max a b"
      and "a = b \<or> 1000 * \<bar>a - b\<bar> \<le> max a b"
    then consider "a = b" | "1000 * \<bar>a - b\<bar> \<le> max a b" by blast
    then show False
    proof cases
      case 1
      with eq nn show False by simp
    next
      case 2
      with eq show False by simp
    qed
  qed
  ultimately show ?thesis
    unfolding m by (simp add: default_scale)
qed

lemma BigInt_1000000: "BigInt ''1000000'' = Inr 1000000"
  by code_simp

lemma BigInt_999000: "BigInt ''999000'' = Inr 999000"
  by code_simp

lemma BigInt_998999: "BigInt ''998999'' = Inr 998999"
  by code_simp

theorem C6_tolerance_boundary_witness:
  "BigInt ''1000000'' = Inr 1000000 \<and> BigInt ''999000'' = Inr 999000
   \<and> BigInt ''998999'' = Inr 998999
   \<and> amountsMatch defaultAggregatorConfig ''1000000'' ''999000'' = Inr True
   \<and> amountsMatch defaultAggregatorConfig ''1000000'' ''998999'' = Inr False"
  using C6_tolerance_boundary [OF BigInt_1000000 BigInt_999000]
    C6_tolerance_boundary [OF BigInt_1000000 BigInt_998999]
  by (simp add: BigInt_1000000 BigInt_999000 BigInt_998999)

subsection \<open>Confidence scores\<close>

text \<open>
  The sums of the confidence literals, each rounded as binary64 addition rounds it, and
  the two thresholds \<open>0.7\<close> and \<open>0.8\<close> as binary64 values.
\<close>

lemma lit_7_10: "js_lit (7 / 10) = 3152519739159347 / 4503599627370496"
  by code_simp

lemma lit_4_5: "js_lit (4 / 5) = 3602879701896397 / 4503599627370496"
  by code_simp

lemma swap_confidence_0: "Math_min (js_lit (1 / 2)) 1 = 1 / 2"
  by code_simp

lemma swap_confidence_1:
  "Math_min (js_add (js_lit (1 / 2)) (js_lit (1 / 5))) 1 = 3152519739159347 / 4503599627370496"
  by code_simp

lemma swap_confidence_2:
  "Math_min (js_add (js_lit (1 / 2)) (js_lit (3 / 10))) 1 = 3602879701896397 / 4503599627370496"
  by code_simp

lemma swap_confidence_3:
  "Math_min (js_add (js_add (js_lit (1 / 2)) (js_lit (1 / 5))) (js_lit (3 / 10))) 1 = 1"
  by code_simp

lemma transfer_confidence_0: "Math_min (js_lit (3 / 5)) 1 = 5404319552844595 / 9007199254740992"
  by code_simp

lemma transfer_confidence_1:
  "Math_min (js_add (js_lit (3 / 5)) (js_lit (1 / 5))) 1 = 3602879701896397 / 4503599627370496"
  by code_simp

lemma transfer_confidence_2:
  "Math_min (js_add (js_lit (3 / 5)) (js_lit (1 / 4))) 1 = 7656119366529843 / 9007199254740992"
  by code_simp

lemma transfer_confidence_3:
  "Math_min (js_add (js_lit (3 / 5)) (js_lit (3 / 10))) 1 = 2026619832316723 / 2251799813685248"
  by code_simp

lemma transfer_confidence_4:
  "Math_min (js_add (js_add (js_lit (3 / 5)) (js_lit (1 / 4))) (js_lit (1 / 5))) 1 = 1"
  by code_simp

lemma transfer_confidence_5:
  "Math_min (js_add (js_add (js_lit (3 / 5)) (js_lit (3 / 10))) (js_lit (1 / 5))) 1 = 1"
  by code_simp

lemmas confidence_values =
  lit_7_10 lit_4_5 swap_confidence_0 swap_confidence_1 swap_confidence_2 swap_confidence_3
  transfer_confidence_0 transfer_confidence_1 transfer_confidence_2 transfer_confidence_3
  transfer_confidence_4 transfer_confidence_5


lemma BigInt_2000000: "BigInt ''2000000'' = Inr 2000000"
  by code_simp

lemma rate_2: "Number_toString (js_div (Number_of_bigint 2000000) (Number_of_bigint 1000000)) = ''2''"
  by code_simp

subsection \<open>The decision sequence of \<open>aggregate\<close>\<close>

lemma aggregate_swap:
  "\<not> ToBoolean (err tx) \<Longrightarrow>
   (if includeFeeEvents config then Inr events else filterFeeEvents events tx) = Inr fevs \<Longrightarrow>
   fevs \<noteq> [] \<Longrightarrow>
   identifySwapPattern fevs = Inr (Some candidate) \<Longrightarrow>
   createSwapEvent candidate tx = Inr ev \<Longrightarrow>
   aggregate config enrichers events tx = run_enrichers enrichers tx ev"
  by (simp add: aggregate_def)

lemma aggregate_transfer:
  "\<not> ToBoolean (err tx) \<Longrightarrow>
   (if includeFeeEvents config then Inr events else filterFeeEvents events tx) = Inr fevs \<Longrightarrow>
   fevs \<noteq> [] \<Longrightarrow>
   identifySwapPattern fevs = Inr None \<Longrightarrow>
   identifyTransferPattern config fevs = Inr (Some candidate) \<Longrightarrow>
   aggregate config enrichers events tx =
     (if filter (\<lambda>e. event_key e \<notin> set (map event_key (tr_atomicEvents candidate))) fevs \<noteq> []
         \<and> generateComplexEvents config
      then run_enrichers enrichers tx (createComplexTransactionEvent fevs tx)
      else run_enrichers enrichers tx (createTransferEvent candidate tx))"
  by (simp add: aggregate_def Let_def)


subsection \<open>Swaps\<close>

lemma swap_debit_credit:
  assumes "M1 \<noteq> M2"
  shows "identifySwapPattern
      [SplTokenTransferEvent DEBIT (b1\<lparr>account := Some A, amount := ''1000000''\<rparr>) (t1\<lparr>mint := M1\<rparr>),
       SplTokenTransferEvent CREDIT (b2\<lparr>account := Some A, amount := ''2000000''\<rparr>) (t2\<lparr>mint := M2\<rparr>)]
    = Inr (Some \<lparr>sc_swapper = Some A,
       sc_tokenIn = \<lparr>ti_mint = M1, ti_amount = ''1000000'', ti_decimals = decimals t1\<rparr>,
       sc_tokenOut = \<lparr>ti_mint = M2, ti_amount = ''2000000'', ti_decimals = decimals t2\<rparr>,
       sc_atomicEvents = [SplTokenTransferEvent CREDIT (b2\<lparr>account := Some A, amount := ''2000000''\<rparr>) (t2\<lparr>mint := M2\<rparr>),
         SplTokenTransferEvent DEBIT (b1\<lparr>account := Some A, amount := ''1000000''\<rparr>) (t1\<lparr>mint := M1\<rparr>)],
       sc_confidence = 1\<rparr>)"
  using assms
  by (simp add: identifySwapPattern_def extractTokenMovements_def group_by_def
        calculateSwapConfidence_def Let_def BigInt_1000000 BigInt_2000000 confidence_values)

lemma swap_credit_debit:
  assumes "M1 \<noteq> M2"
  shows "identifySwapPattern
      [SplTokenTransferEvent CREDIT (b2\<lparr>account := Some A, amount := ''2000000''\<rparr>) (t2\<lparr>mint := M2\<rparr>),
       SplTokenTransferEvent DEBIT (b1\<lparr>account := Some A, amount := ''1000000''\<rparr>) (t1\<lparr>mint := M1\<rparr>)]
    = Inr (Some \<lparr>sc_swapper = Some A,
       sc_tokenIn = \<lparr>ti_mint = M1, ti_amount = ''1000000'', ti_decimals = decimals t1\<rparr>,
       sc_tokenOut = \<lparr>ti_mint = M2, ti_amount = ''2000000'', ti_decimals = decimals t2\<rparr>,
       sc_atomicEvents = [SplTokenTransferEvent CREDIT (b2\<lparr>account := Some A, amount := ''2000000''\<rparr>) (t2\<lparr>mint := M2\<rparr>),
         SplTokenTransferEvent DEBIT (b1\<lparr>account := Some A, amount := ''1000000''\<rparr>) (t1\<lparr>mint := M1\<rparr>)],
       sc_confidence = 1\<rparr>)"
  using assms
  by (simp add: identifySwapPattern_def extractTokenMovements_def group_by_def
        calculateSwapConfidence_def Let_def BigInt_1000000 BigInt_2000000 confidence_values)


text \<open>
  Claim C7. On a successful transaction whose filtered events are a DEBIT_SPL of 1000000
  of mint \<open>M1\<close> and a CREDIT_SPL of 2000000 of another mint \<open>M2\<close>, both of account \<open>A\<close>
  (in either order), \<open>aggregate\<close> builds the SWAP of \<open>A\<close> with \<open>tokenIn\<close> the debit,
  \<open>tokenOut\<close> the credit and rate \<open>2\<close>, and hands it to the enrichers.
\<close>

theorem C7_swap_example:
  "err tx = JNull \<Longrightarrow> M1 \<noteq> M2 \<Longrightarrow>
   d = SplTokenTransferEvent DEBIT (b1\<lparr>account := Some A, amount := ''1000000''\<rparr>) (t1\<lparr>mint := M1\<rparr>) \<Longrightarrow>
   c = SplTokenTransferEvent CREDIT (b2\<lparr>account := Some A, amount := ''2000000''\<rparr>) (t2\<lparr>mint := M2\<rparr>) \<Longrightarrow>
   (if includeFeeEvents config then Inr events else filterFeeEvents events tx) = Inr fevs \<Longrightarrow>
   fevs = [d, c] \<or> fevs = [c, d] \<Longrightarrow>
   aggregate config enrichers events tx =
     run_enrichers enrichers tx
       (SwapEvent
          \<lparr>se_signature = tx_signature tx, se_timestamp = blockTime tx,
           atomicEvents = [c, d],
           metadata = Some [(''aggregator'', [(''confidence'', MNumber 1)])]\<rparr>
          (Some A)
          \<lparr>ti_mint = M1, ti_amount = ''1000000'', ti_decimals = decimals t1\<rparr>
          \<lparr>ti_mint = M2, ti_amount = ''2000000'', ti_decimals = decimals t2\<rparr>
          (Some ''2''))"
proof -
  assume null: "err tx = JNull" and ne: "M1 \<noteq> M2"
    and d: "d = SplTokenTransferEvent DEBIT (b1\<lparr>account := Some A, amount := ''1000000''\<rparr>) (t1\<lparr>mint := M1\<rparr>)"
    and c: "c = SplTokenTransferEvent CREDIT (b2\<lparr>account := Some A, amount := ''2000000''\<rparr>) (t2\<lparr>mint := M2\<rparr>)"
    and f: "(if includeFeeEvents config then Inr events else filterFeeEvents events tx) = Inr fevs"
    and fe: "fevs = [d, c] \<or> fevs = [c, d]"
  let ?cand = "\<lparr>sc_swapper = Some A,
       sc_tokenIn = \<lparr>ti_mint = M1, ti_amount = ''1000000'', ti_decimals = decimals t1\<rparr>,
       sc_tokenOut = \<lparr>ti_mint = M2, ti_amount = ''2000000'', ti_decimals = decimals t2\<rparr>,
       sc_atomicEvents = [c, d], sc_confidence = 1\<rparr>"
  have sw: "identifySwapPattern fevs = Inr (Some ?cand)"
    using fe swap_debit_credit [OF ne] swap_credit_debit [OF ne]
    unfolding d c by auto
  have ev: "createSwapEvent ?cand tx = Inr (SwapEvent
          \<lparr>se_signature = tx_signature tx, se_timestamp = blockTime tx,
           atomicEvents = [c, d],
           metadata = Some [(''aggregator'', [(''confidence'', MNumber 1)])]\<rparr>
          (Some A)
          \<lparr>ti_mint = M1, ti_amount = ''1000000'', ti_decimals = decimals t1\<rparr>
          \<lparr>ti_mint = M2, ti_amount = ''2000000'', ti_decimals = decimals t2\<rparr>
          (Some ''2''))"
    by (simp add: createSwapEvent_def BigInt_1000000 BigInt_2000000 rate_2)
  from null have ok: "\<not> ToBoolean (err tx)" by simp
  from fe have "fevs \<noteq> []" by auto
  from aggregate_swap [OF ok f this sw ev] show ?thesis .
qed

theorem C7_swap_example_witness:
  "err example_tx = JNull \<and> ''M1'' \<noteq> ''M2''
   \<and> filterFeeEvents
         [spl_event DEBIT ''A'' ''M1'' ''1000000'', spl_event CREDIT ''A'' ''M2'' ''2000000'']
         example_tx
       = Inr [spl_event DEBIT ''A'' ''M1'' ''1000000'', spl_event CREDIT ''A'' ''M2'' ''2000000'']
   \<and> aggregate defaultAggregatorConfig []
         [spl_event DEBIT ''A'' ''M1'' ''1000000'', spl_event CREDIT ''A'' ''M2'' ''2000000'']
         example_tx
       = Inr (SwapEvent
          \<lparr>se_signature = ''sig'', se_timestamp = Some 1640995200,
           atomicEvents =
             [spl_event CREDIT ''A'' ''M2'' ''2000000'', spl_event DEBIT ''A'' ''M1'' ''1000000''],
           metadata = Some [(''aggregator'', [(''confidence'', MNumber 1)])]\<rparr>
          (Some ''A'')
          \<lparr>ti_mint = ''M1'', ti_amount = ''1000000'', ti_decimals = 6\<rparr>
          \<lparr>ti_mint = ''M2'', ti_amount = ''2000000'', ti_decimals = 6\<rparr>
          (Some ''2''))"
proof -
  let ?d = "spl_event DEBIT ''A'' ''M1'' ''1000000''"
  let ?c = "spl_event CREDIT ''A'' ''M2'' ''2000000''"
  have ok: "err example_tx = JNull" by (simp add: example_tx_def)
  have ne: "''M1'' \<noteq> ''M2''" by simp
  have d: "?d = SplTokenTransferEvent DEBIT
      (\<lparr>account = Some ''A'', amount = ''1000000'', signature = ''sig'',
        timestamp = Some 1640995200\<rparr>\<lparr>account := Some ''A'', amount := ''1000000''\<rparr>)
      (\<lparr>mint = ''M1'', tokenAccount = Some ''A_M1'', owner = ''A'', decimals = 6,
        programId = ''TokenkegQfeZyiNwAJbNbGKPFXCWuBvf9Ss623VQ5DA''\<rparr>\<lparr>mint := ''M1''\<rparr>)"
    by (simp add: spl_event_def)
  have c: "?c = SplTokenTransferEvent CREDIT
      (\<lparr>account = Some ''A'', amount = ''2000000'', signature = ''sig'',
        timestamp = Some 1640995200\<rparr>\<lparr>account := Some ''A'', amount := ''2000000''\<rparr>)
      (\<lparr>mint = ''M2'', tokenAccount = Some ''A_M2'', owner = ''A'', decimals = 6,
        programId = ''TokenkegQfeZyiNwAJbNbGKPFXCWuBvf9Ss623VQ5DA''\<rparr>\<lparr>mint := ''M2''\<rparr>)"
    by (simp add: spl_event_def)
  have f: "filterFeeEvents [?d, ?c] example_tx = Inr [?d, ?c]"
    by (simp add: filterFeeEvents_def spl_event_def)
  then have f': "(if includeFeeEvents defaultAggregatorConfig then Inr [?d, ?c]
                 else filterFeeEvents [?d, ?c] example_tx) = Inr [?d, ?c]"
    by simp
  have "aggregate defaultAggregatorConfig [] [?d, ?c] example_tx
       = Inr (SwapEvent
          \<lparr>se_signature = ''sig'', se_timestamp = Some 1640995200,
           atomicEvents = [?c, ?d],
           metadata = Some [(''aggregator'', [(''confidence'', MNumber 1)])]\<rparr>
          (Some ''A'')
          \<lparr>ti_mint = ''M1'', ti_amount = ''1000000'', ti_decimals = 6\<rparr>
          \<lparr>ti_mint = ''M2'', ti_amount = ''2000000'', ti_decimals = 6\<rparr>
          (Some ''2''))"
    using C7_swap_example [OF ok ne d c f', of "[]"]
    by (simp add: example_tx_def)
  with ok ne f show ?thesis by blast
qed

subsection \<open>Transfers\<close>

lemma BigInt_100: "BigInt ''100'' = Inr 100"
  by code_simp

lemma BigInt_1000000000: "BigInt ''1000000000'' = Inr 1000000000"
  by code_simp

lemma amountsMatch_equal:
  "BigInt s1 = Inr n \<Longrightarrow> BigInt s2 = Inr n \<Longrightarrow> amountsMatch config s1 s2 = Inr True"
  by (simp add: amountsMatch_def)

lemma threshold_transfer: "js_lit (4 / 5) < 1"
  by (simp add: lit_4_5)

lemma no_swap_two_accounts:
  assumes "account bd \<noteq> account bc"
  shows "identifySwapPattern [SolTransferEvent DEBIT bd, SolTransferEvent CREDIT bc] = Inr None"
    and "identifySwapPattern [SolTransferEvent CREDIT bc, SolTransferEvent DEBIT bd] = Inr None"
  using assms
  by (auto simp add: identifySwapPattern_def extractTokenMovements_def group_by_def Let_def)

lemma transfer_two_sol:
  assumes "account bd \<noteq> account bc" "BigInt (amount bd) = Inr n" "BigInt (amount bc) = Inr n"
    and "fevs = [SolTransferEvent DEBIT bd, SolTransferEvent CREDIT bc]
       \<or> fevs = [SolTransferEvent CREDIT bc, SolTransferEvent DEBIT bd]"
  shows "identifyTransferPattern config fevs =
    Inr (Some \<lparr>tr_sender = account bd, tr_receiver = account bc,
       tr_token = \<lparr>ti_mint = ''SOL'', ti_amount = amount bd, ti_decimals = 9\<rparr>,
       tr_atomicEvents = [SolTransferEvent CREDIT bc, SolTransferEvent DEBIT bd],
       tr_confidence = 1\<rparr>)"
proof -
  have m: "amountsMatch config (amount bc) (amount bd) = Inr True"
    using assms(2,3) by (simp add: amountsMatch_equal)
  show ?thesis
    using assms(1,4) m
    by (auto simp add: identifyTransferPattern_def extractTokenMovements_def group_by_def Let_def
          calculateTransferConfidence_def confidence_values)
qed


text \<open>
  Claim C3, as stated, fails in one detail: the asset identifier of the native asset is
  the string \<open>SOL\<close> (\<open>extractTokenMovements\<close> writes \<open>mint: 'SOL'\<close>), not \<open>NATIVE\<close>.
\<close>

theorem C3_counterexample:
  "aggregate defaultAggregatorConfig []
     [sol_event DEBIT ''S'' ''1000000000'', sol_event CREDIT ''R'' ''1000000000''] example_tx
   = Inr (TransferEvent
       \<lparr>se_signature = ''sig'', se_timestamp = Some 1640995200,
        atomicEvents = [sol_event CREDIT ''R'' ''1000000000'', sol_event DEBIT ''S'' ''1000000000''],
        metadata = Some [(''aggregator'', [(''confidence'', MNumber 1)])]\<rparr>
       (Some ''S'') (Some ''R'')
       \<lparr>ti_mint = ''SOL'', ti_amount = ''1000000000'', ti_decimals = 9\<rparr> ''DIRECT'')
   \<and> ''SOL'' \<noteq> ''NATIVE''"
  by code_simp

text \<open>
  Claim C3, amended. On a successful transaction whose filtered events are one DEBIT_SOL
  and one CREDIT_SOL of the same amount on two different accounts (in either order),
  \<open>aggregate\<close> builds the TRANSFER from the debit account to the credit account of that
  amount, with 9 decimals and the asset identifier \<open>SOL\<close>, and hands it to the enrichers.
\<close>

theorem C3_native_transfer:
  "err tx = JNull \<Longrightarrow>
   d = SolTransferEvent DEBIT bd \<Longrightarrow> c = SolTransferEvent CREDIT bc \<Longrightarrow>
   account bd \<noteq> account bc \<Longrightarrow>
   BigInt (amount bd) = Inr n \<Longrightarrow> BigInt (amount bc) = Inr n \<Longrightarrow>
   (if includeFeeEvents config then Inr events else filterFeeEvents events tx) = Inr fevs \<Longrightarrow>
   fevs = [d, c] \<or> fevs = [c, d] \<Longrightarrow>
   aggregate config enrichers events tx =
     run_enrichers enrichers tx
       (TransferEvent
          \<lparr>se_signature = tx_signature tx, se_timestamp = blockTime tx,
           atomicEvents = [c, d],
           metadata = Some [(''aggregator'', [(''confidence'', MNumber 1)])]\<rparr>
          (account bd) (account bc)
          \<lparr>ti_mint = ''SOL'', ti_amount = amount bd, ti_decimals = 9\<rparr>
          ''DIRECT'')"
proof -
  assume null: "err tx = JNull"
    and d: "d = SolTransferEvent DEBIT bd" and c: "c = SolTransferEvent CREDIT bc"
    and ne: "account bd \<noteq> account bc"
    and n: "BigInt (amount bd) = Inr n" "BigInt (amount bc) = Inr n"
    and f: "(if includeFeeEvents config then Inr events else filterFeeEvents events tx) = Inr fevs"
    and fe: "fevs = [d, c] \<or> fevs = [c, d]"
  let ?cand = "\<lparr>tr_sender = account bd, tr_receiver = account bc,
       tr_token = \<lparr>ti_mint = ''SOL'', ti_amount = amount bd, ti_decimals = 9\<rparr>,
       tr_atomicEvents = [c, d], tr_confidence = 1\<rparr>"
  from null have ok: "\<not> ToBoolean (err tx)" by simp
  from fe have nonempty: "fevs \<noteq> []" by auto
  have sw: "identifySwapPattern fevs = Inr None"
    using fe no_swap_two_accounts [OF ne] unfolding d c by auto
  have tr: "identifyTransferPattern config fevs = Inr (Some ?cand)"
    using transfer_two_sol [OF ne n, of fevs config] fe unfolding d c by simp
  have used: "filter (\<lambda>e. event_key e \<notin> set (map event_key (tr_atomicEvents ?cand))) fevs = []"
    using fe by auto
  from aggregate_transfer [OF ok f nonempty sw tr, of enrichers] used
  show ?thesis by (simp add: createTransferEvent_def)
qed


theorem C3_native_transfer_witness:
  "err example_tx = JNull
   \<and> BigInt ''1000000000'' = Inr 1000000000
   \<and> filterFeeEvents
         [sol_event DEBIT ''P'' ''5000'', sol_event DEBIT ''S'' ''1000000000'',
          sol_event CREDIT ''R'' ''1000000000''] example_tx
       = Inr [sol_event DEBIT ''S'' ''1000000000'', sol_event CREDIT ''R'' ''1000000000'']
   \<and> aggregate defaultAggregatorConfig []
         [sol_event DEBIT ''P'' ''5000'', sol_event DEBIT ''S'' ''1000000000'',
          sol_event CREDIT ''R'' ''1000000000''] example_tx
       = Inr (TransferEvent
          \<lparr>se_signature = ''sig'', se_timestamp = Some 1640995200,
           atomicEvents =
             [sol_event CREDIT ''R'' ''1000000000'', sol_event DEBIT ''S'' ''1000000000''],
           metadata = Some [(''aggregator'', [(''confidence'', MNumber 1)])]\<rparr>
          (Some ''S'') (Some ''R'')
          \<lparr>ti_mint = ''SOL'', ti_amount = ''1000000000'', ti_decimals = 9\<rparr> ''DIRECT'')"
proof -
  let ?p = "sol_event DEBIT ''P'' ''5000''"
  let ?d = "sol_event DEBIT ''S'' ''1000000000''"
  let ?c = "sol_event CREDIT ''R'' ''1000000000''"
  let ?bd = "\<lparr>account = Some ''S'', amount = ''1000000000'', signature = ''sig'',
              timestamp = Some 1640995200\<rparr>"
  let ?bc = "\<lparr>account = Some ''R'', amount = ''1000000000'', signature = ''sig'',
              timestamp = Some 1640995200\<rparr>"
  have ok: "err example_tx = JNull" by (simp add: example_tx_def)
  have d: "?d = SolTransferEvent DEBIT ?bd" and c: "?c = SolTransferEvent CREDIT ?bc"
    by (simp_all add: sol_event_def)
  have ne: "account ?bd \<noteq> account ?bc" by simp
  have n: "BigInt (amount ?bd) = Inr 1000000000" "BigInt (amount ?bc) = Inr 1000000000"
    by (simp_all add: BigInt_1000000000)
  have f: "filterFeeEvents [?p, ?d, ?c] example_tx = Inr [?d, ?c]"
    by (simp add: filterFeeEvents_def sol_event_def BigInt_5000 BigInt_1000000000 example_tx_def)
  then have f': "(if includeFeeEvents defaultAggregatorConfig then Inr [?p, ?d, ?c]
                 else filterFeeEvents [?p, ?d, ?c] example_tx) = Inr [?d, ?c]"
    by (simp add: defaultAggregatorConfig_def)
  have "aggregate defaultAggregatorConfig [] [?p, ?d, ?c] example_tx
       = Inr (TransferEvent
          \<lparr>se_signature = ''sig'', se_timestamp = Some 1640995200,
           atomicEvents = [?c, ?d],
           metadata = Some [(''aggregator'', [(''confidence'', MNumber 1)])]\<rparr>
          (Some ''S'') (Some ''R'')
          \<lparr>ti_mint = ''SOL'', ti_amount = ''1000000000'', ti_decimals = 9\<rparr> ''DIRECT'')"
    using C3_native_transfer [OF ok d c ne n f', of "[]"]
    by (simp add: example_tx_def)
  with ok f BigInt_1000000000 show ?thesis by blast
qed

text \<open>
  Claim C8. \<open>aggregate\<close> recognises the events used by the transfer pair by the key
  \<open>signature-type-account\<close>. A second debit of the sender on another mint has the key of
  the pair's debit, so it is not counted as unmatched: with complex events enabled the
  three events below aggregate to the TRANSFER of the first two, not to
  COMPLEX_TRANSACTION, and the third event is lost from \<open>atomicEvents\<close>.
\<close>

theorem C8_key_collision_returns_transfer:
  "aggregate defaultAggregatorConfig []
     [spl_event DEBIT ''A'' ''M'' ''100'', spl_event CREDIT ''B'' ''M'' ''100'',
      spl_event DEBIT ''A'' ''M2'' ''5''] example_tx
   = Inr (TransferEvent
       \<lparr>se_signature = ''sig'', se_timestamp = Some 1640995200,
        atomicEvents = [spl_event CREDIT ''B'' ''M'' ''100'', spl_event DEBIT ''A'' ''M'' ''100''],
        metadata = Some [(''aggregator'', [(''confidence'', MNumber 1)])]\<rparr>
       (Some ''A'') (Some ''B'')
       \<lparr>ti_mint = ''M'', ti_amount = ''100'', ti_decimals = 6\<rparr> ''DIRECT'')"
  by code_simp

subsection \<open>The range of the confidence\<close>

lemma find_first_Some:
  "find_first f xs = Inr (Some y) \<Longrightarrow> \<exists>x \<in> set xs. f x = Inr (Some y)"
  by (induction xs) (auto split: sum.splits option.splits)

lemma swap_confidence_cases:
  "calculateSwapConfidence i out all = Inr c \<Longrightarrow>
   c = 1 / 2 \<or> c = 3152519739159347 / 4503599627370496
   \<or> c = 3602879701896397 / 4503599627370496 \<or> c = 1"
  by (auto simp: calculateSwapConfidence_def Let_def confidence_values
        split: sum.splits if_splits)

lemma transfer_confidence_cases:
  "calculateTransferConfidence config i out all = Inr c \<Longrightarrow>
   c = 5404319552844595 / 9007199254740992 \<or> c = 3602879701896397 / 4503599627370496
   \<or> c = 7656119366529843 / 9007199254740992
   \<or> c = 2026619832316723 / 2251799813685248 \<or> c = 1"
  by (auto simp: calculateTransferConfidence_def Let_def confidence_values
        split: sum.splits if_splits)

lemma swap_candidate_confidence:
  "identifySwapPattern events = Inr (Some sc) \<Longrightarrow>
   sc_confidence sc = 3602879701896397 / 4503599627370496 \<or> sc_confidence sc = 1"
  apply (simp add: identifySwapPattern_def Let_def)
  apply (drule find_first_Some)
  apply clarsimp
  apply (drule find_first_Some)
  apply clarsimp
  apply (drule find_first_Some)
  apply (clarsimp split: if_splits sum.splits)
  apply (drule swap_confidence_cases)
  apply (auto simp: confidence_values)
  done

lemma transfer_candidate_confidence:
  "identifyTransferPattern config events = Inr (Some tc) \<Longrightarrow>
   tr_confidence tc = 7656119366529843 / 9007199254740992
   \<or> tr_confidence tc = 2026619832316723 / 2251799813685248 \<or> tr_confidence tc = 1"
  apply (simp add: identifyTransferPattern_def Let_def)
  apply (drule find_first_Some)
  apply clarsimp
  apply (drule find_first_Some)
  apply clarsimp
  apply (drule find_first_Some)
  apply (clarsimp split: if_splits sum.splits bool.splits)
  apply (drule transfer_confidence_cases)
  apply (auto simp: confidence_values)
  done


lemma aggregate_cases:
  assumes "aggregate config [] events tx = Inr ev"
  shows "ev = createFailedTransactionEvent events tx
       \<or> (\<exists>why. ev = createUnknownTransactionEvent events tx why)
       \<or> (\<exists>fevs. ev = createComplexTransactionEvent fevs tx)
       \<or> (\<exists>fevs sc. identifySwapPattern fevs = Inr (Some sc) \<and> createSwapEvent sc tx = Inr ev)
       \<or> (\<exists>fevs tc. identifyTransferPattern config fevs = Inr (Some tc)
                      \<and> ev = createTransferEvent tc tx)"
proof (cases "ToBoolean (err tx)")
  case True
  with assms show ?thesis by (simp add: aggregate_def)
next
  case ok: False
  show ?thesis
  proof (cases "if includeFeeEvents config then Inr events else filterFeeEvents events tx")
    case (Inl e)
    with ok assms show ?thesis by (simp add: aggregate_def)
  next
    case (Inr filteredEvents)
    show ?thesis
    proof (cases "filteredEvents = []")
      case True
      with ok Inr assms show ?thesis by (auto simp add: aggregate_def)
    next
      case nonempty: False
      show ?thesis
      proof (cases "identifySwapPattern filteredEvents")
        case (Inl e)
        with ok Inr nonempty assms show ?thesis by (simp add: aggregate_def)
      next
        case sw: (Inr swap)
        show ?thesis
        proof (cases swap)
          case (Some sc)
          with ok Inr nonempty sw assms have "createSwapEvent sc tx = Inr ev"
            by (simp add: aggregate_def split: sum.splits)
          with sw Some show ?thesis by blast
        next
          case noswap: None
          show ?thesis
          proof (cases "identifyTransferPattern config filteredEvents")
            case (Inl e)
            with ok Inr nonempty sw noswap assms show ?thesis by (simp add: aggregate_def)
          next
            case tr: (Inr transfer)
            show ?thesis
            proof (cases transfer)
              case notransfer: None
              with ok Inr nonempty sw noswap tr assms
              have "ev = createComplexTransactionEvent filteredEvents tx
                  \<or> ev = createUnknownTransactionEvent events tx
                           ''Could not identify transaction pattern''"
                by (simp add: aggregate_def split: if_splits)
              then show ?thesis by blast
            next
              case (Some tc)
              with ok Inr nonempty sw noswap tr assms
              have "ev = createComplexTransactionEvent filteredEvents tx
                  \<or> ev = createTransferEvent tc tx"
                by (simp add: aggregate_def Let_def split: if_splits)
              with tr Some show ?thesis by blast
            qed
          qed
        qed
      qed
    qed
  qed
qed

lemma swap_event_confidence:
  "createSwapEvent sc tx = Inr ev \<Longrightarrow>
   metadata_field ev ''aggregator'' ''confidence'' = Some (MNumber (sc_confidence sc))"
  by (auto simp: createSwapEvent_def metadata_field_def split: sum.splits)

lemma semantic_type_created:
  "semantic_type (createFailedTransactionEvent events tx) = ''TRANSACTION_FAILED''"
  "semantic_type (createUnknownTransactionEvent events tx why) = ''UNKNOWN_TRANSACTION''"
  "semantic_type (createComplexTransactionEvent events tx) = ''COMPLEX_TRANSACTION''"
  "semantic_type (createTransferEvent tc tx) = ''TRANSFER''"
  "createSwapEvent sc tx = Inr ev \<Longrightarrow> semantic_type ev = ''SWAP''"
  by (auto simp: createFailedTransactionEvent_def createUnknownTransactionEvent_def
        createComplexTransactionEvent_def createTransferEvent_def createSwapEvent_def
        split: sum.splits)


text \<open>
  Claim C10. Without enrichers, a SWAP returned by \<open>aggregate\<close> carries
  \<open>metadata.aggregator.confidence\<close> above the threshold 0.7 (both the binary64 value the
  source compares with and the real number) and at most 1; a TRANSFER carries one above
  0.8 and at most 1.
\<close>

theorem C10_confidence_range:
  "aggregate config [] events tx = Inr ev \<Longrightarrow>
   (semantic_type ev = ''SWAP'' \<longrightarrow>
      (\<exists>c. metadata_field ev ''aggregator'' ''confidence'' = Some (MNumber c)
           \<and> js_lit (7 / 10) < c \<and> 7 / 10 < c \<and> c \<le> 1))
   \<and> (semantic_type ev = ''TRANSFER'' \<longrightarrow>
      (\<exists>c. metadata_field ev ''aggregator'' ''confidence'' = Some (MNumber c)
           \<and> js_lit (8 / 10) < c \<and> 8 / 10 < c \<and> c \<le> 1))"
proof -
  assume a: "aggregate config [] events tx = Inr ev"
  have swap: "\<exists>c. metadata_field ev ''aggregator'' ''confidence'' = Some (MNumber c)
           \<and> js_lit (7 / 10) < c \<and> 7 / 10 < c \<and> c \<le> 1" if t: "semantic_type ev = ''SWAP''"
  proof -
    from aggregate_cases [OF a] t obtain fevs sc
      where sc: "identifySwapPattern fevs = Inr (Some sc)" and ev: "createSwapEvent sc tx = Inr ev"
      by (auto simp: semantic_type_created)
    from swap_candidate_confidence [OF sc]
    have "js_lit (7 / 10) < sc_confidence sc \<and> 7 / 10 < sc_confidence sc \<and> sc_confidence sc \<le> 1"
      by (auto simp: confidence_values)
    with swap_event_confidence [OF ev] show ?thesis by blast
  qed
  have transfer: "\<exists>c. metadata_field ev ''aggregator'' ''confidence'' = Some (MNumber c)
           \<and> js_lit (8 / 10) < c \<and> 8 / 10 < c \<and> c \<le> 1" if t: "semantic_type ev = ''TRANSFER''"
  proof -
    from aggregate_cases [OF a] t obtain fevs tc
      where tc: "identifyTransferPattern config fevs = Inr (Some tc)"
        and ev: "ev = createTransferEvent tc tx"
      by (auto simp: semantic_type_created)
    from transfer_candidate_confidence [OF tc]
    have "js_lit (8 / 10) < tr_confidence tc \<and> 8 / 10 < tr_confidence tc \<and> tr_confidence tc \<le> 1"
      by (auto simp: confidence_values)
    moreover have "metadata_field ev ''aggregator'' ''confidence'' = Some (MNumber (tr_confidence tc))"
      by (simp add: ev createTransferEvent_def metadata_field_def)
    ultimately show ?thesis by blast
  qed
  from swap transfer show ?thesis by blast
qed

lemma swap_of_zero_debit:
  "aggregate defaultAggregatorConfig []
     [spl_event DEBIT ''A'' ''M1'' ''0'', spl_event CREDIT ''A'' ''M2'' ''5''] example_tx
   = Inr (SwapEvent
       \<lparr>se_signature = ''sig'', se_timestamp = Some 1640995200,
        atomicEvents = [spl_event CREDIT ''A'' ''M2'' ''5'', spl_event DEBIT ''A'' ''M1'' ''0''],
        metadata = Some [(''aggregator'',
                          [(''confidence'', MNumber (3602879701896397 / 4503599627370496))])]\<rparr>
       (Some ''A'')
       \<lparr>ti_mint = ''M1'', ti_amount = ''0'', ti_decimals = 6\<rparr>
       \<lparr>ti_mint = ''M2'', ti_amount = ''5'', ti_decimals = 6\<rparr> None)"
  by code_simp

lemma transfer_among_three:
  "aggregate (defaultAggregatorConfig\<lparr>generateComplexEvents := False\<rparr>) []
     [spl_event DEBIT ''A'' ''M'' ''100'', spl_event CREDIT ''B'' ''M'' ''100'',
      spl_event CREDIT ''C'' ''M'' ''7''] example_tx
   = Inr (TransferEvent
       \<lparr>se_signature = ''sig'', se_timestamp = Some 1640995200,
        atomicEvents = [spl_event CREDIT ''B'' ''M'' ''100'', spl_event DEBIT ''A'' ''M'' ''100''],
        metadata = Some [(''aggregator'',
                          [(''confidence'', MNumber (2026619832316723 / 2251799813685248))])]\<rparr>
       (Some ''A'') (Some ''B'')
       \<lparr>ti_mint = ''M'', ti_amount = ''100'', ti_decimals = 6\<rparr> ''DIRECT'')"
  by code_simp

theorem C10_confidence_range_witness:
  "(\<exists>ev c. aggregate defaultAggregatorConfig []
              [spl_event DEBIT ''A'' ''M1'' ''0'', spl_event CREDIT ''A'' ''M2'' ''5''] example_tx
            = Inr ev
          \<and> semantic_type ev = ''SWAP''
          \<and> metadata_field ev ''aggregator'' ''confidence'' = Some (MNumber c)
          \<and> 7 / 10 < c \<and> c \<le> 1)
   \<and> (\<exists>ev c. aggregate (defaultAggregatorConfig\<lparr>generateComplexEvents := False\<rparr>) []
              [spl_event DEBIT ''A'' ''M'' ''100'', spl_event CREDIT ''B'' ''M'' ''100'',
               spl_event CREDIT ''C'' ''M'' ''7''] example_tx
            = Inr ev
          \<and> semantic_type ev = ''TRANSFER''
          \<and> metadata_field ev ''aggregator'' ''confidence'' = Some (MNumber c)
          \<and> 8 / 10 < c \<and> c \<le> 1)"
proof -
  from C10_confidence_range [OF swap_of_zero_debit]
  have "\<exists>ev c. aggregate defaultAggregatorConfig []
              [spl_event DEBIT ''A'' ''M1'' ''0'', spl_event CREDIT ''A'' ''M2'' ''5''] example_tx
            = Inr ev
          \<and> semantic_type ev = ''SWAP''
          \<and> metadata_field ev ''aggregator'' ''confidence'' = Some (MNumber c)
          \<and> 7 / 10 < c \<and> c \<le> 1"
    unfolding swap_of_zero_debit by fastforce
  moreover
  from C10_confidence_range [OF transfer_among_three]
  have "\<exists>ev c. aggregate (defaultAggregatorConfig\<lparr>generateComplexEvents := False\<rparr>) []
              [spl_event DEBIT ''A'' ''M'' ''100'', spl_event CREDIT ''B'' ''M'' ''100'',
               spl_event CREDIT ''C'' ''M'' ''7''] example_tx
            = Inr ev
          \<and> semantic_type ev = ''TRANSFER''
          \<and> metadata_field ev ''aggregator'' ''confidence'' = Some (MNumber c)
          \<and> 8 / 10 < c \<and> c \<le> 1"
    unfolding transfer_among_three by fastforce
  ultimately show ?thesis by blast
qed

subsection \<open>binary64 arithmetic on safe integers\<close>











subsection \<open>Decimal strings and \<open>BigInt\<close>\<close>














subsection \<open>The amounts of the atomic events\<close>















lemma large_token_indices: "allAccountIndices large_token_tx = [2, 3]"
  by code_simp

lemma large_token_amounts:
  "token_amount (preTokenBalances large_token_tx) 2 = 18446744073709551615"
  "token_amount (postTokenBalances large_token_tx) 2 = 9223372036854775808"
  "token_amount (preTokenBalances large_token_tx) 3 = 0"
  "token_amount (postTokenBalances large_token_tx) 3 = 9223372036854775808"
  "bigint_toString 9223372036854775807 = ''9223372036854775807''"
  "bigint_toString 9223372036854775808 = ''9223372036854775808''"
  "bigint_toString 1000005000 = ''1000005000''"
  by code_simp+

lemma large_token_fields:
  "tx_signature large_token_tx = ''sig''" "blockTime large_token_tx = Some 1640995200"
  "js_index (accountKeys large_token_tx) 0 = Some ''S''"
  "js_index (accountKeys large_token_tx) (Suc 0) = Some ''R''"
  "js_index (accountKeys large_token_tx) 2 = Some ''T''"
  "js_index (accountKeys large_token_tx) 3 = Some ''U''"
  "balance_or_zero (preBalances large_token_tx) 0 = 2000000000"
  "balance_or_zero (postBalances large_token_tx) 0 = 999995000"
  "max (length (preBalances large_token_tx)) (length (postBalances large_token_tx)) = 3"
  by (simp_all add: large_token_tx_def example_tx_def js_index_def balance_or_zero_def)

lemma large_token_events:
  "exact_token_event large_token_tx 2 b
     = SplTokenTransferEvent DEBIT
         \<lparr>account = Some (tb_owner b), amount = ''9223372036854775807'', signature = ''sig'',
          timestamp = Some 1640995200\<rparr>
         \<lparr>mint = tb_mint b, tokenAccount = Some ''T'', owner = tb_owner b,
          decimals = tb_decimals b, programId = tb_programId b\<rparr>"
  "exact_token_event large_token_tx 3 b
     = SplTokenTransferEvent CREDIT
         \<lparr>account = Some (tb_owner b), amount = ''9223372036854775808'', signature = ''sig'',
          timestamp = Some 1640995200\<rparr>
         \<lparr>mint = tb_mint b, tokenAccount = Some ''U'', owner = tb_owner b,
          decimals = tb_decimals b, programId = tb_programId b\<rparr>"
  "exact_native_event large_token_tx 0
     = SolTransferEvent DEBIT
         \<lparr>account = Some ''S'', amount = ''1000005000'', signature = ''sig'',
          timestamp = Some 1640995200\<rparr>"
  by (simp_all add: exact_token_event_def exact_native_event_def Let_def large_token_amounts
        large_token_fields)


text \<open>
  The description of a token event leaves no room for a rounded amount: the debit of the
  token account at index 2 with the neighbouring binary64 amount \<open>2^63\<close>, which index 3
  records as a credit, is the exact event of no account index.
\<close>

lemma rounded_token_amount_rejected:
  "\<not> (\<exists>i \<in> set (allAccountIndices large_token_tx). \<exists>b.
         token_record large_token_tx i = Some b
         \<and> SplTokenTransferEvent DEBIT
             \<lparr>account = Some ''S'', amount = ''9223372036854775808'', signature = ''sig'',
              timestamp = Some 1640995200\<rparr>
             \<lparr>mint = ''M'', tokenAccount = Some ''T'', owner = ''S'', decimals = 0,
              programId = ''TokenkegQfeZyiNwAJbNbGKPFXCWuBvf9Ss623VQ5DA''\<rparr>
           = exact_token_event large_token_tx i b)"
  by (auto simp: large_token_indices large_token_events)


end
